theory Spec2Isabelle
  imports Main "HOL-Library.Word" "HOL-Library.Char_ord" "HOL-Library.List_Lexorder"
    "HOL-Library.Multiset"
begin

unbundle bit_operations_syntax

section \<open>ipmon: a shallow embedding of monitor.go\<close>

text \<open>
  The package \<^verbatim>\<open>ipmon\<close> (file \<^verbatim>\<open>monitor.go\<close>) watches the kernel's links, addresses
  and routes through the netlink library and hands \<^verbatim>\<open>Update\<close> values to a handler.
  This theory embeds its four parts: the snapshot function \<^verbatim>\<open>genUpdate\<close>, the three
  handlers \<^verbatim>\<open>addrUpdate\<close>, \<^verbatim>\<open>linkUpdate\<close>, \<^verbatim>\<open>routeUpdate\<close>, the event loop
  \<^verbatim>\<open>Monitor\<close> and the marshaller \<^verbatim>\<open>MarshalEnv\<close>.

  Go's \<^verbatim>\<open>int\<close> is \<^typ>\<open>int\<close> (the code only compares and prints such values),
  \<^verbatim>\<open>uint8\<close>, \<^verbatim>\<open>uint16\<close>, \<^verbatim>\<open>uint32\<close> and \<^verbatim>\<open>uint\<close> are words, a string is a
  \<^typ>\<open>string\<close> of bytes, a slice that the code tests against \<^verbatim>\<open>nil\<close> is an option.
\<close>

subsection \<open>The Go standard library: \<^verbatim>\<open>net.IP\<close>, \<^verbatim>\<open>net.IPMask\<close>, \<^verbatim>\<open>net.IPNet\<close>\<close>

type_synonym byte = "8 word"

text \<open>A \<^verbatim>\<open>net.IP\<close> is a byte slice; \<open>None\<close> is the nil slice.\<close>

type_synonym IP = "byte list option"

definition ipbytes :: "IP \<Rightarrow> byte list" where
  "ipbytes ip = (case ip of None \<Rightarrow> [] | Some bs \<Rightarrow> bs)"

definition IPv4len :: nat where "IPv4len = 4"
definition IPv6len :: nat where "IPv6len = 16"

definition v4InV6Prefix :: "byte list" where
  "v4InV6Prefix = [0, 0, 0, 0, 0, 0, 0, 0, 0, 0, 0xff, 0xff]"

definition IPv4 :: "byte \<Rightarrow> byte \<Rightarrow> byte \<Rightarrow> byte \<Rightarrow> IP" where
  "IPv4 a b c d = Some (v4InV6Prefix @ [a, b, c, d])"

definition IPv4bcast :: IP where "IPv4bcast = IPv4 255 255 255 255"
definition IPv4zero :: IP where "IPv4zero = IPv4 0 0 0 0"
definition IPv6unspecified :: IP where
  "IPv6unspecified = Some [0, 0, 0, 0, 0, 0, 0, 0, 0, 0, 0, 0, 0, 0, 0, 0]"
definition IPv6loopback :: IP where
  "IPv6loopback = Some [0, 0, 0, 0, 0, 0, 0, 0, 0, 0, 0, 0, 0, 0, 0, 1]"

definition isZeros :: "byte list \<Rightarrow> bool" where
  "isZeros p = list_all (\<lambda>b. b = 0) p"

definition To4 :: "IP \<Rightarrow> IP" where
  "To4 ip =
     (let b = ipbytes ip in
      if length b = IPv4len then ip
      else if length b = IPv6len \<and> isZeros (take 10 b) \<and> b ! 10 = 0xff \<and> b ! 11 = 0xff
      then Some (drop 12 b)
      else None)"

definition To16 :: "IP \<Rightarrow> IP" where
  "To16 ip =
     (let b = ipbytes ip in
      if length b = IPv4len then IPv4 (b ! 0) (b ! 1) (b ! 2) (b ! 3)
      else if length b = IPv6len then ip
      else None)"

definition Equal :: "IP \<Rightarrow> IP \<Rightarrow> bool" where
  "Equal ip x =
     (let a = ipbytes ip; b = ipbytes x in
      if length a = length b then a = b
      else if length a = IPv4len \<and> length b = IPv6len
      then take 12 b = v4InV6Prefix \<and> a = drop 12 b
      else if length a = IPv6len \<and> length b = IPv4len
      then take 12 a = v4InV6Prefix \<and> drop 12 a = b
      else False)"

definition IsUnspecified :: "IP \<Rightarrow> bool" where
  "IsUnspecified ip = (Equal ip IPv4zero \<or> Equal ip IPv6unspecified)"

definition IsLoopback :: "IP \<Rightarrow> bool" where
  "IsLoopback ip =
     (case To4 ip of
        Some ip4 \<Rightarrow> ip4 ! 0 = 127
      | None \<Rightarrow> Equal ip IPv6loopback)"

definition IsPrivate :: "IP \<Rightarrow> bool" where
  "IsPrivate ip =
     (case To4 ip of
        Some ip4 \<Rightarrow>
          ip4 ! 0 = 10 \<or> (ip4 ! 0 = 172 \<and> (ip4 ! 1) AND 0xf0 = 16)
          \<or> (ip4 ! 0 = 192 \<and> ip4 ! 1 = 168)
      | None \<Rightarrow> length (ipbytes ip) = IPv6len \<and> (ipbytes ip ! 0) AND 0xfe = 0xfc)"

definition IsMulticast :: "IP \<Rightarrow> bool" where
  "IsMulticast ip =
     (case To4 ip of
        Some ip4 \<Rightarrow> (ip4 ! 0) AND 0xf0 = 0xe0
      | None \<Rightarrow> length (ipbytes ip) = IPv6len \<and> ipbytes ip ! 0 = 0xff)"

definition IsLinkLocalUnicast :: "IP \<Rightarrow> bool" where
  "IsLinkLocalUnicast ip =
     (case To4 ip of
        Some ip4 \<Rightarrow> ip4 ! 0 = 169 \<and> ip4 ! 1 = 254
      | None \<Rightarrow>
          length (ipbytes ip) = IPv6len \<and> ipbytes ip ! 0 = 0xfe
          \<and> (ipbytes ip ! 1) AND 0xc0 = 0x80)"

definition IsGlobalUnicast :: "IP \<Rightarrow> bool" where
  "IsGlobalUnicast ip =
     ((length (ipbytes ip) = IPv4len \<or> length (ipbytes ip) = IPv6len)
      \<and> \<not> Equal ip IPv4bcast
      \<and> \<not> IsUnspecified ip
      \<and> \<not> IsLoopback ip
      \<and> \<not> IsMulticast ip
      \<and> \<not> IsLinkLocalUnicast ip)"

subsection \<open>The Go standard library: printing\<close>

definition hexDigit :: string where "hexDigit = ''0123456789abcdef''"

text \<open>\<^verbatim>\<open>uitoa\<close>: an unsigned value in decimal.\<close>

fun uitoa :: "nat \<Rightarrow> string" where
  "uitoa n = (if n < 10 then [hexDigit ! n] else uitoa (n div 10) @ [hexDigit ! (n mod 10)])"

declare uitoa.simps [simp del]

text \<open>The verb \<^verbatim>\<open>%d\<close> of \<^verbatim>\<open>fmt.Sprintf\<close> on an \<^verbatim>\<open>int\<close>.\<close>

definition itoa :: "int \<Rightarrow> string" where
  "itoa i = (if i < 0 then ''-'' @ uitoa (nat (- i)) else uitoa (nat i))"

text \<open>\<^verbatim>\<open>hexString\<close>: two lower-case hexadecimal digits for each byte.\<close>

definition hexString :: "byte list \<Rightarrow> string" where
  "hexString b = concat (map (\<lambda>x. [hexDigit ! (unat x div 16), hexDigit ! (unat x mod 16)]) b)"

text \<open>\<^verbatim>\<open>appendHex\<close>: a 16-bit group in hexadecimal with no leading zeros.\<close>

definition appendHex :: "nat \<Rightarrow> string" where
  "appendHex x =
     (if 0x1000 \<le> x then [hexDigit ! (x div 0x1000)] else [])
     @ (if 0x100 \<le> x then [hexDigit ! (x div 0x100 mod 16)] else [])
     @ (if 0x10 \<le> x then [hexDigit ! (x div 0x10 mod 16)] else [])
     @ [hexDigit ! (x mod 16)]"

definition string4 :: "byte list \<Rightarrow> string" where
  "string4 p = uitoa (unat (p ! 0)) @ ''.'' @ uitoa (unat (p ! 1)) @ ''.''
     @ uitoa (unat (p ! 2)) @ ''.'' @ uitoa (unat (p ! 3))"

text \<open>The eight 16-bit groups of a 16-byte address (\<^verbatim>\<open>v6u16\<close>).\<close>

fun v6groups :: "byte list \<Rightarrow> nat list" where
  "v6groups (h # l # rest) = (unat h * 256 + unat l) # v6groups rest"
| "v6groups _ = []"

text \<open>
  The first loop of \<^verbatim>\<open>appendTo6\<close>: the first longest run of at least two zero groups,
  as the pair \<open>(zeroStart, zeroEnd)\<close>; \<open>(255, 255)\<close> when there is none. The list is the
  groups from index \<open>i\<close> on.
\<close>

fun zeroRun :: "nat list \<Rightarrow> nat \<Rightarrow> nat \<times> nat \<Rightarrow> nat \<times> nat" where
  "zeroRun [] i z = z"
| "zeroRun (g # gs) i (zeroStart, zeroEnd) =
     (let l = length (takeWhile (\<lambda>x. x = 0) (g # gs)) in
      zeroRun gs (i + 1)
        (if 2 \<le> l \<and> zeroEnd - zeroStart < l then (i, i + l) else (zeroStart, zeroEnd)))"

text \<open>
  The second loop of \<^verbatim>\<open>appendTo6\<close>: \<^verbatim>\<open>::\<close> at \<open>zeroStart\<close>, the groups of the run
  skipped, a colon before every other group but the first and the one that follows the run.
\<close>

fun appendTo6 :: "nat \<times> nat \<Rightarrow> nat \<Rightarrow> nat list \<Rightarrow> string" where
  "appendTo6 z i [] = []"
| "appendTo6 (zeroStart, zeroEnd) i (g # gs) =
     (if i = zeroStart then '':'' @ '':'' @ appendTo6 (zeroStart, zeroEnd) (i + 1) gs
      else if zeroStart < i \<and> i < zeroEnd then appendTo6 (zeroStart, zeroEnd) (i + 1) gs
      else (if 0 < i \<and> i \<noteq> zeroEnd then '':'' else [])
           @ appendHex g @ appendTo6 (zeroStart, zeroEnd) (i + 1) gs)"

definition string6 :: "byte list \<Rightarrow> string" where
  "string6 p = (let gs = v6groups p in appendTo6 (zeroRun gs 0 (255, 255)) 0 gs)"

text \<open>\<^verbatim>\<open>func (ip IP) String() string\<close>.\<close>

definition IPString :: "IP \<Rightarrow> string" where
  "IPString ip =
     (let b = ipbytes ip in
      if length b = 0 then ''<nil>''
      else if length b \<noteq> IPv4len \<and> length b \<noteq> IPv6len then ''?'' @ hexString b
      else if length (ipbytes (To4 ip)) = IPv4len then string4 (ipbytes (To4 ip))
      else string6 b)"

subsection \<open>Masks and networks\<close>

text \<open>
  The inner loop of \<^verbatim>\<open>simpleMaskLength\<close>, \<^verbatim>\<open>for v&0x80 != 0 { n++; v <<= 1 }\<close>: the
  number of leading one bits of a byte, added to \<open>n\<close>, and what is left of the byte.
  Each round shifts the top bit out, so the byte gets smaller and the loop ends.
\<close>

function leadingOnes :: "byte \<Rightarrow> int \<Rightarrow> int \<times> byte" where
  "leadingOnes v n = (if v AND 0x80 \<noteq> 0 then leadingOnes (push_bit 1 v) (n + 1) else (n, v))"
  by pat_completeness auto
termination
proof (relation "measure (\<lambda>(v, n). unat v)")
  show "wf (measure (\<lambda>(v :: byte, n :: int). unat v))" by simp
next
  fix v :: byte and n :: int
  assume a: "v AND 0x80 \<noteq> 0"
  have "bit v 7"
  proof (rule ccontr)
    assume "\<not> bit v 7"
    have p: "bit (2 ^ 7 :: byte) m = (m = 7)" for m
      by (simp only: bit_exp_iff possible_bit_word) auto
    have "v AND 2 ^ 7 = 0"
    proof (rule bit_eqI)
      fix m
      show "bit (v AND 2 ^ 7) m = bit (0 :: byte) m"
        using \<open>\<not> bit v 7\<close> unfolding bit_and_iff p by auto
    qed
    with a show False by simp
  qed
  then have "bit (unat v) 7" by (simp add: bit_unsigned_iff)
  then have "\<not> unat v < 2 ^ 7" by (auto simp: bit_iff_odd)
  then have lo: "128 \<le> unat v" by simp
  have hi: "unat v < 256" using unsigned_less[of v, where 'a=nat] by simp
  have "unat (push_bit 1 v) = (unat v * 2) mod 256"
    by (simp add: unat_word_ariths)
  also have "\<dots> = (unat v * 2 - 256) mod 256"
    using lo by (simp add: le_mod_geq)
  also have "\<dots> = unat v * 2 - 256"
    using hi by simp
  finally have "unat (push_bit 1 v) < unat v" using lo hi by simp
  then show "((push_bit 1 v, n + 1), (v, n)) \<in> measure (\<lambda>(v, n). unat v)" by simp
qed

declare leadingOnes.simps [simp del]

fun simpleMaskLengthFrom :: "byte list \<Rightarrow> int \<Rightarrow> int" where
  "simpleMaskLengthFrom [] n = n"
| "simpleMaskLengthFrom (v # rest) n =
     (if v = 0xff then simpleMaskLengthFrom rest (n + 8)
      else (case leadingOnes v n of
              (n', v') \<Rightarrow> if v' \<noteq> 0 then - 1
                          else if list_ex (\<lambda>b. b \<noteq> 0) rest then - 1
                          else n'))"

definition simpleMaskLength :: "byte list \<Rightarrow> int" where
  "simpleMaskLength m = simpleMaskLengthFrom m 0"

text \<open>\<^verbatim>\<open>func (m IPMask) Size() (ones, bits int)\<close>.\<close>

definition Size :: "byte list \<Rightarrow> int \<times> int" where
  "Size m =
     (let ones = simpleMaskLength m; bits = int (length m) * 8 in
      if ones = - 1 then (0, 0) else (ones, bits))"

definition MaskString :: "byte list \<Rightarrow> string" where
  "MaskString m = (if length m = 0 then ''<nil>'' else hexString m)"

record IPNet =
  IP :: IP
  Mask :: "byte list"

definition networkNumberAndMask :: "IPNet \<Rightarrow> (byte list \<times> byte list) option" where
  "networkNumberAndMask n =
     (let ip4 = To4 (IP n);
          ip = (if ip4 = None then ipbytes (IP n) else ipbytes ip4);
          m = Mask n in
      if ip4 = None \<and> length ip \<noteq> IPv6len then None
      else if length m = IPv4len then (if length ip \<noteq> IPv4len then None else Some (ip, m))
      else if length m = IPv6len then Some (ip, if length ip = IPv4len then drop 12 m else m)
      else None)"

text \<open>\<^verbatim>\<open>func (n *IPNet) String() string\<close>, on a pointer that is not nil.\<close>

definition IPNetString :: "IPNet \<Rightarrow> string" where
  "IPNetString n =
     (case networkNumberAndMask n of
        None \<Rightarrow> ''<nil>''
      | Some (nn, m) \<Rightarrow>
          (let l = simpleMaskLength m in
           if l = - 1 then IPString (Some nn) @ ''/'' @ MaskString m
           else IPString (Some nn) @ ''/'' @ uitoa (nat l)))"

subsection \<open>The netlink library's data\<close>

text \<open>
  Of each netlink type the model keeps the fields that \<^verbatim>\<open>monitor.go\<close> reads, under
  their Go names, and for a route its \<^verbatim>\<open>Family\<close> as well. Where two Go types share a
  field name the later record hides the earlier one, so such fields are written with
  their record's name (\<open>Update.Link\<close>, \<open>Route.Link\<close>).

  \<^verbatim>\<open>netlink.Addr\<close> embeds a \<^verbatim>\<open>*net.IPNet\<close>, which the library fills for every address
  it enumerates: the record extends \<open>IPNet\<close>. The zero \<^verbatim>\<open>netlink.Addr{}\<close> that
  \<^verbatim>\<open>addrUpdate\<close> and \<^verbatim>\<open>routeUpdate\<close> leave in \<^verbatim>\<open>Address.N\<close> is \<open>zeroAddr\<close>; the code
  never looks into it.
\<close>

record netlink_Addr = IPNet +
  ValidLft :: int

definition zeroAddr :: netlink_Addr where
  "zeroAddr = \<lparr>IP = None, Mask = [], ValidLft = 0\<rparr>"

text \<open>
  \<^verbatim>\<open>netlink.Link\<close> is an interface; the code reads it through \<^verbatim>\<open>Attrs()\<close> only. A link
  that is nil or whose \<^verbatim>\<open>Attrs()\<close> is nil is \<open>None\<close>.
\<close>

record LinkAttrs =
  Index :: int
  Name :: string
  Flags :: "64 word"

record netlink_Route =
  LinkIndex :: int
  ILinkIndex :: int
  Scope :: byte
  Dst :: "IPNet option"
  Src :: IP
  Gw :: IP
  Protocol :: int
  Priority :: int
  Family :: int
  Table :: int

record AddrUpdate =
  LinkAddress :: IPNet
  LinkIndex :: int
  NewAddr :: bool

record LinkUpdate =
  Flags :: "32 word"
  Change :: "32 word"
  Link :: "LinkAttrs option"

record RouteUpdate = netlink_Route +
  Type :: "16 word"

text \<open>Constants of \<^verbatim>\<open>golang.org/x/sys/unix\<close> and of netlink.\<close>

definition IFF_UP :: "'a::len word" where "IFF_UP = 0x1"
definition IFF_BROADCAST :: "'a::len word" where "IFF_BROADCAST = 0x2"
definition IFF_LOOPBACK :: "'a::len word" where "IFF_LOOPBACK = 0x8"
definition IFF_POINTOPOINT :: "'a::len word" where "IFF_POINTOPOINT = 0x10"
definition IFF_NOARP :: "'a::len word" where "IFF_NOARP = 0x80"
definition IFF_PROMISC :: "'a::len word" where "IFF_PROMISC = 0x100"
definition IFF_MULTICAST :: "'a::len word" where "IFF_MULTICAST = 0x1000"

definition RTM_NEWROUTE :: "16 word" where "RTM_NEWROUTE = 0x18"
definition RTM_DELROUTE :: "16 word" where "RTM_DELROUTE = 0x19"

definition SCOPE_UNIVERSE :: byte where "SCOPE_UNIVERSE = 0"
definition SCOPE_LINK :: byte where "SCOPE_LINK = 253"

definition AF_INET :: int where "AF_INET = 2"
definition AF_INET6 :: int where "AF_INET6 = 10"
definition RTPROT_STATIC :: int where "RTPROT_STATIC = 4"

text \<open>
  What the kernel answers when it is asked: \<^verbatim>\<open>netlink.LinkList()\<close>,
  \<^verbatim>\<open>netlink.AddrList(link, FAMILY_ALL)\<close>, \<^verbatim>\<open>netlink.RouteList(nil, FAMILY_ALL)\<close> and
  \<^verbatim>\<open>netlink.LinkByIndex(i)\<close>. The code drops the error of each call and goes on with the
  value returned, which is the empty list or nil on an error.
\<close>

record kernel =
  LinkList :: "LinkAttrs option list"
  AddrList :: "LinkAttrs \<Rightarrow> netlink_Addr list"
  RouteList :: "netlink_Route list"
  LinkByIndex :: "int \<Rightarrow> LinkAttrs option"

subsection \<open>The package's data\<close>

text \<open>
  The pointers \<^verbatim>\<open>*Address\<close>, \<^verbatim>\<open>*Route\<close> and \<^verbatim>\<open>*Interface\<close> inside an \<^verbatim>\<open>Update\<close>
  are never nil as the package builds them; the records hold the values pointed to.
  \<^verbatim>\<open>Update.Address\<close> is nil for a snapshot: an option.
\<close>

record Address =
  N :: netlink_Addr
  Address :: string
  CIDR :: int

record Route =
  Destination :: string
  Gateway :: string
  Link :: string
  Src :: string
  route :: netlink_Route

record Interface =
  Up :: bool
  link :: LinkAttrs
  Addr :: "Address list"

record Update =
  Type :: string
  Change :: "string list"
  Link :: string
  Address :: "Address option"
  Gateway :: string
  Source :: string
  Routes :: "Route list"
  Interfaces :: "string \<rightharpoonup> Interface"

subsection \<open>\<^verbatim>\<open>genUpdate\<close>: the snapshot\<close>

text \<open>The loop over the addresses of one link; \<^verbatim>\<open>continue\<close> drops an address.\<close>

primrec genAddrs :: "netlink_Addr list \<Rightarrow> Address list" where
  "genAddrs [] = []"
| "genAddrs (addr # addrs) =
     (if \<not> IsGlobalUnicast (IP addr) \<and> \<not> IsLinkLocalUnicast (IP addr) then genAddrs addrs
      else \<lparr>N = addr, Address.Address = IPString (IP addr), CIDR = fst (Size (Mask addr))\<rparr>
           # genAddrs addrs)"

text \<open>
  The loop over the links, on the pair of \<^verbatim>\<open>lnkIdx\<close> and \<^verbatim>\<open>upd.Interfaces\<close>: both are
  Go maps, and a later link with the same key overwrites an earlier one.
\<close>

primrec genLinks ::
  "kernel \<Rightarrow> LinkAttrs option list \<Rightarrow> (int \<rightharpoonup> string) \<times> (string \<rightharpoonup> Interface)
   \<Rightarrow> (int \<rightharpoonup> string) \<times> (string \<rightharpoonup> Interface)" where
  "genLinks k [] st = st"
| "genLinks k (l # links) st =
     (case l of
        None \<Rightarrow> genLinks k links st
      | Some attrs \<Rightarrow>
          genLinks k links
            ((fst st)(Index attrs \<mapsto> Name attrs),
             (snd st)(Name attrs \<mapsto>
                \<lparr>Up = (LinkAttrs.Flags attrs AND IFF_UP = IFF_UP),
                 link = attrs,
                 Addr = genAddrs (AddrList k attrs)\<rparr>)))"

text \<open>The loop over the routes; a missing key of \<^verbatim>\<open>lnkIdx\<close> reads as the empty string.\<close>

primrec genRoutes :: "(int \<rightharpoonup> string) \<Rightarrow> netlink_Route list \<Rightarrow> Route list" where
  "genRoutes lnkIdx [] = []"
| "genRoutes lnkIdx (r # routes) =
     (if Scope r \<noteq> SCOPE_UNIVERSE \<and> Scope r \<noteq> SCOPE_LINK then genRoutes lnkIdx routes
      else if (case Dst r of None \<Rightarrow> False | Some d \<Rightarrow> IsLinkLocalUnicast (IP d))
      then genRoutes lnkIdx routes
      else if Table r \<noteq> 254 then genRoutes lnkIdx routes
      else \<lparr>Destination = (case Dst r of None \<Rightarrow> ''default'' | Some d \<Rightarrow> IPNetString d),
            Route.Gateway = (if Gw r \<noteq> None then IPString (Gw r) else ''''),
            Route.Link = (case lnkIdx (netlink_Route.LinkIndex r) of None \<Rightarrow> '''' | Some n \<Rightarrow> n),
            Route.Src = (if netlink_Route.Src r \<noteq> None then IPString (netlink_Route.Src r) else ''''),
            route = r\<rparr>
           # genRoutes lnkIdx routes)"

text \<open>
  \<^verbatim>\<open>func genUpdate(last *Update) *Update\<close>, reading the kernel \<open>k\<close>. The argument
  \<^verbatim>\<open>last\<close> is \<open>last'\<close> here.
\<close>

definition genUpdate :: "Update option \<Rightarrow> kernel \<Rightarrow> Update" where
  "genUpdate last' k =
     (let st = genLinks k (LinkList k) (Map.empty, Map.empty) in
      \<lparr>Update.Type = '''', Update.Change = [], Update.Link = '''', Update.Address = None,
       Update.Gateway = '''', Source = '''',
       Routes = genRoutes (fst st) (RouteList k),
       Interfaces = snd st\<rparr>)"

subsection \<open>The handlers of the three kinds of record\<close>

text \<open>
  Each handler is a method that writes to its \<^verbatim>\<open>Update\<close> and returns whether the
  change is notable: the model returns the \<^verbatim>\<open>Update\<close> written and that flag.
\<close>

definition addrUpdate :: "kernel \<Rightarrow> Update \<Rightarrow> AddrUpdate \<Rightarrow> Update \<times> bool" where
  "addrUpdate k u a =
     (let u1 = u\<lparr>Update.Type := ''address''\<rparr>;
          cidr = fst (Size (Mask (LinkAddress a)));
          u2 = u1\<lparr>Update.Address :=
                  Some \<lparr>N = zeroAddr, Address.Address = IPString (IP (LinkAddress a)),
                        CIDR = cidr\<rparr>\<rparr>;
          u3 = (case LinkByIndex k (AddrUpdate.LinkIndex a) of
                  None \<Rightarrow> u2
                | Some attrs \<Rightarrow> u2\<lparr>Update.Link := Name attrs\<rparr>);
          u4 = (if NewAddr a then u3\<lparr>Update.Change := [''add'']\<rparr>
                else u3\<lparr>Update.Change := [''delete'']\<rparr>)
      in (u4, True))"

definition testFlag :: "32 word \<Rightarrow> 32 word \<Rightarrow> 32 word \<Rightarrow> string \<Rightarrow> string \<Rightarrow> string list" where
  "testFlag a b c add delete =
     (if a AND c = 0 then []
      else if b AND c = 0 then [delete]
      else [add])"

definition linkUpdate :: "Update \<Rightarrow> LinkUpdate \<Rightarrow> Update \<times> bool" where
  "linkUpdate u a =
     (let u1 = u\<lparr>Update.Type := ''link''\<rparr>;
          u2 = (case LinkUpdate.Link a of
                  None \<Rightarrow> u1
                | Some attrs \<Rightarrow> u1\<lparr>Update.Link := Name attrs\<rparr>);
          ch = LinkUpdate.Change a;
          fl = LinkUpdate.Flags a;
          u3 = u2\<lparr>Update.Change := Update.Change u2
                 @ testFlag ch fl IFF_UP ''up'' ''down''
                 @ testFlag ch fl IFF_PROMISC ''promisc'' ''nopromisc''
                 @ testFlag ch fl IFF_NOARP ''noarp'' ''arp''
                 @ testFlag ch fl IFF_BROADCAST ''broadcast'' ''nobroadcast''
                 @ testFlag ch fl IFF_LOOPBACK ''loopback'' ''noloopback''
                 @ testFlag ch fl IFF_POINTOPOINT ''pointtopoint'' ''nopointtopoint''
                 @ testFlag ch fl IFF_MULTICAST ''multicast'' ''nomulticast''\<rparr>
      in if ch AND IFF_UP = 0 then (u3, False) else (u3, True))"

definition routeUpdate :: "kernel \<Rightarrow> Update \<Rightarrow> RouteUpdate \<Rightarrow> Update \<times> bool" where
  "routeUpdate k u a =
     (let u1 = u\<lparr>Update.Type := ''route''\<rparr>;
          u2 = (case Dst a of
                  Some d \<Rightarrow>
                    u1\<lparr>Update.Address :=
                         Some \<lparr>N = zeroAddr, Address.Address = IPString (IP d),
                               CIDR = fst (Size (Mask d))\<rparr>\<rparr>
                | None \<Rightarrow> u1\<lparr>Update.Type := ''default_route''\<rparr>);
          u3 = (if Gw a \<noteq> None then u2\<lparr>Update.Gateway := IPString (Gw a)\<rparr> else u2);
          u4 = (if netlink_Route.Src a \<noteq> None
                then u3\<lparr>Source := IPString (netlink_Route.Src a)\<rparr> else u3);
          u5 = (case LinkByIndex k (ILinkIndex a) of
                  None \<Rightarrow> u4
                | Some attrs \<Rightarrow> u4\<lparr>Update.Link := Name attrs\<rparr>);
          u6 = (if RouteUpdate.Type a = RTM_NEWROUTE then u5\<lparr>Update.Change := [''add'']\<rparr>
                else if RouteUpdate.Type a = RTM_DELROUTE then u5\<lparr>Update.Change := [''delete'']\<rparr>
                else u5)
      in if Scope a \<noteq> SCOPE_UNIVERSE \<and> Scope a \<noteq> SCOPE_LINK then (u6, False)
         else if Table a \<noteq> 254 then (u6, False)
         else (u6, True))"

subsection \<open>\<^verbatim>\<open>MarshalEnv\<close>: the environment marshaller\<close>

text \<open>
  \<^verbatim>\<open>net.ParseIP\<close> is the standard library's parser of address literals. The marshaller
  only classifies what it returns, so the model takes the parser as the argument
  \<open>ParseIP\<close>.

  One round of the loop over \<^verbatim>\<open>inf.Addr\<close>: the strings appended to \<^verbatim>\<open>env\<close> for the
  address \<open>a\<close> of the interface named \<open>n\<close>.
\<close>

definition addrEnv :: "(string \<Rightarrow> IP) \<Rightarrow> string \<Rightarrow> Address \<Rightarrow> string list" where
  "addrEnv ParseIP n a =
     (let ip = ParseIP (Address.Address a) in
      (if IsLinkLocalUnicast ip then
         (if To4 ip \<noteq> None then [''IPMON_LL_IPV4_'' @ n @ ''='' @ Address.Address a]
          else if To16 ip \<noteq> None then [''IPMON_LL_IPV6_'' @ n @ ''='' @ Address.Address a]
          else [])
       else [])
      @ (if \<not> IsGlobalUnicast ip then []
         else if To4 ip \<noteq> None then
           (if 0 < ValidLft (N a) then [''IPMON_IPV4_TTL_'' @ n @ ''='' @ itoa (ValidLft (N a))]
            else [])
           @ [''IPMON_IPV4_'' @ n @ ''='' @ Address.Address a,
              ''IPMON_IPV4_MASK_'' @ n @ ''='' @ itoa (CIDR a)]
         else if To16 ip \<noteq> None then
           (if IsPrivate ip then []
            else (if 0 < ValidLft (N a)
                  then [''IPMON_IPV6_TTL_'' @ n @ ''='' @ itoa (ValidLft (N a))]
                  else [])
                 @ [''IPMON_IPV6_'' @ n @ ''='' @ Address.Address a,
                    ''IPMON_IPV6_MASK_'' @ n @ ''='' @ itoa (CIDR a)])
         else []))"

text \<open>One round of the loop over \<^verbatim>\<open>u.Interfaces\<close>, for the key \<open>n\<close> and its value.\<close>

definition ifaceEnv :: "(string \<Rightarrow> IP) \<Rightarrow> string \<Rightarrow> Interface \<Rightarrow> string list" where
  "ifaceEnv ParseIP n inf' =
     concat (map (addrEnv ParseIP n) (Addr inf'))
     @ (if Up inf' then [''IPMON_UP_'' @ n @ ''=1''] else [''IPMON_UP_'' @ n @ ''=0''])"

text \<open>
  Go ranges over a map in an order of its own choosing. The order is the list \<open>ks\<close> of
  the keys: every key of the map once.
\<close>

definition rangeOrder :: "('k \<rightharpoonup> 'v) \<Rightarrow> 'k list \<Rightarrow> bool" where
  "rangeOrder m ks = (distinct ks \<and> set ks = dom m)"

definition interfacesEnv ::
  "(string \<Rightarrow> IP) \<Rightarrow> string list \<Rightarrow> (string \<rightharpoonup> Interface) \<Rightarrow> string list" where
  "interfacesEnv ParseIP ks m =
     concat (map (\<lambda>n. case m n of None \<Rightarrow> [] | Some inf' \<Rightarrow> ifaceEnv ParseIP n inf') ks)"

text \<open>
  The loop over \<^verbatim>\<open>u.Routes\<close>, on the pair of \<^verbatim>\<open>defRouteIPv4\<close> and \<^verbatim>\<open>defRouteIPv6\<close>
  (nil is \<open>None\<close>). The \<^verbatim>\<open>switch\<close> is on \<^verbatim>\<open>r.route.Protocol\<close>.
\<close>

definition defRouteStep :: "Route option \<times> Route option \<Rightarrow> Route \<Rightarrow> Route option \<times> Route option" where
  "defRouteStep d r =
     (if Dst (route r) = None then
        (if Protocol (route r) = 4 then
           (if (case fst d of None \<Rightarrow> True
                | Some defRouteIPv4 \<Rightarrow> Priority (route r) < Priority (route defRouteIPv4))
            then (Some r, snd d) else d)
         else if Protocol (route r) = 6 then
           (if (case snd d of None \<Rightarrow> True
                | Some defRouteIPv6 \<Rightarrow> Priority (route r) < Priority (route defRouteIPv6))
            then (fst d, Some r) else d)
         else d)
      else d)"

definition defRoutes :: "Route list \<Rightarrow> Route option \<times> Route option" where
  "defRoutes rs = foldl defRouteStep (None, None) rs"

definition defRouteIPv4Env :: "Route option \<Rightarrow> string list" where
  "defRouteIPv4Env d =
     (case d of
        None \<Rightarrow> []
      | Some defRouteIPv4 \<Rightarrow>
          (let src = netlink_Route.Src (route defRouteIPv4) in
           (if To4 src \<noteq> None then [''IPMON_IPV4='' @ IPString (To4 src)] else [])
           @ [''IPMON_IPV4_IF='' @ Route.Link defRouteIPv4]
           @ (if Gw (route defRouteIPv4) \<noteq> None
              then [''IPMON_IPV4_GW='' @ IPString (Gw (route defRouteIPv4))] else [])))"

definition defRouteIPv6Env :: "Route option \<Rightarrow> string list" where
  "defRouteIPv6Env d =
     (case d of
        None \<Rightarrow> []
      | Some defRouteIPv6 \<Rightarrow>
          (let src = netlink_Route.Src (route defRouteIPv6) in
           (if To16 src \<noteq> None then [''IPMON_IPV6='' @ IPString (To16 src)] else [])
           @ [''IPMON_IPV6_IF='' @ Route.Link defRouteIPv6]
           @ (if Gw (route defRouteIPv6) \<noteq> None
              then [''IPMON_IPV6_GW='' @ IPString (Gw (route defRouteIPv6))] else [])))"

text \<open>The list \<^verbatim>\<open>env\<close> as it stands before \<^verbatim>\<open>sort.Strings\<close>.\<close>

definition envUnsorted :: "(string \<Rightarrow> IP) \<Rightarrow> string list \<Rightarrow> Update \<Rightarrow> string list" where
  "envUnsorted ParseIP ks u =
     [''IPMON_TYPE='' @ Update.Type u]
     @ (case Update.Change u of [] \<Rightarrow> [] | c # cs \<Rightarrow> [''IPMON_CHANGE='' @ c])
     @ (case Update.Address u of
          None \<Rightarrow> []
        | Some a \<Rightarrow> [''IPMON_ADDR='' @ Address.Address a, ''IPMON_MASK='' @ itoa (CIDR a)])
     @ (if Update.Gateway u \<noteq> '''' then [''IPMON_GW='' @ Update.Gateway u] else [])
     @ (if Source u \<noteq> '''' then [''IPMON_SRC='' @ Source u] else [])
     @ interfacesEnv ParseIP ks (Interfaces u)
     @ (if Update.Link u \<noteq> '''' then [''IPMON_LINK='' @ Update.Link u] else [])
     @ defRouteIPv4Env (fst (defRoutes (Routes u)))
     @ defRouteIPv6Env (snd (defRoutes (Routes u)))"

text \<open>
  \<^verbatim>\<open>sort.Strings\<close> orders strings byte by byte, which is the order of \<^typ>\<open>string\<close>
  here; strings that compare equal are equal, so the sorted list is \<^term>\<open>sort\<close> of the
  list.
\<close>

definition MarshalEnv :: "(string \<Rightarrow> IP) \<Rightarrow> string list \<Rightarrow> Update \<Rightarrow> string list" where
  "MarshalEnv ParseIP ks u = sort (envUnsorted ParseIP ks u)"

subsection \<open>\<^verbatim>\<open>Monitor\<close>: the event loop\<close>

text \<open>
  A Go \<^verbatim>\<open>error\<close> is its message; nil is \<open>None\<close>. The four calls that subscribe return
  what the record \<open>subscriptions\<close> holds.
\<close>

type_synonym error = string

record subscriptions =
  NeighSubscribeWithOptions :: "error option"
  AddrSubscribe :: "error option"
  RouteSubscribe :: "error option"
  LinkSubscribe :: "error option"

text \<open>
  What happens around the loop, in the order in which the loop meets it:
  \<open>CtxDone\<close>, the channel \<^verbatim>\<open>ctx.Done()\<close> of the caller's context is closed (a nil
  context is replaced by \<^verbatim>\<open>context.Background()\<close>, which is never cancelled);
  what one of the four channels delivers, \<open>Some\<close> a record or \<open>None\<close> when the channel
  is closed (\<^verbatim>\<open>op\<close> false); \<open>TmrCh\<close>, a tick of the timer. Each comes with the kernel as
  it is read while the event is handled. A \<^verbatim>\<open>select\<close> with several cases ready takes any
  of them: the list is the order taken.
\<close>

datatype event =
    CtxDone
  | AddrUpd "AddrUpdate option"
  | LinkUpd "LinkUpdate option"
  | RouteUpd "RouteUpdate option"
  | NeighUpd "unit option"
  | TmrCh

text \<open>
  The argument \<^verbatim>\<open>interval\<close> is a Go \<^verbatim>\<open>int\<close>: 64 bits on two of the three targets of the
  Makefile (amd64, arm64) and 32 bits on the third (arm), where it is sign-extended by
  \<^verbatim>\<open>time.Duration(interval)\<close>. It is modelled as the \<^verbatim>\<open>int64\<close> it converts to, read with
  \<^term>\<open>sint\<close>. A \<^verbatim>\<open>time.Duration\<close> is an \<^verbatim>\<open>int64\<close> of nanoseconds and \<^verbatim>\<open>time.Second\<close> is
  \<open>10\<^sup>9\<close>; the product \<^verbatim>\<open>time.Duration(interval) * time.Second\<close> wraps around.
\<close>

type_synonym Duration = "64 word"

definition Second :: Duration where "Second = 1000000000"

text \<open>
  What the loop does that can be seen from outside: \<^verbatim>\<open>fn(upd)\<close> and \<^verbatim>\<open>tmr.Reset(d)\<close>.
\<close>

datatype action = Fn Update | TmrReset Duration

text \<open>
  \<open>Return err\<close>: \<^verbatim>\<open>Monitor\<close> has returned \<open>err\<close>. \<open>Waiting\<close>: the events are used up
  and the loop waits in its \<^verbatim>\<open>select\<close>. \<open>Panic\<close>: \<^verbatim>\<open>time.NewTicker\<close> and
  \<^verbatim>\<open>Ticker.Reset\<close> panic on a duration that is not positive, and nothing recovers.
\<close>

datatype outcome = Return "error option" | Waiting | Panic

text \<open>
  What follows a handler in each of the three cases of a record: \<open>r\<close> is the update
  written and whether it is notable, \<open>tmr\<close> is \<^verbatim>\<open>tmr != nil\<close>, \<open>rest\<close> is the rest of
  the loop.
  \<^verbatim>\<open>
  if lastUpdate.addrUpdate(a) {
      fn(lastUpdate)
      if tmr != nil {
          tmr.Reset(time.Duration(interval) * time.Second)
      }
  }
  \<close>
\<close>

definition notify ::
  "Duration \<Rightarrow> bool \<Rightarrow> Update \<times> bool \<Rightarrow> action list \<times> outcome \<Rightarrow> action list \<times> outcome" where
  "notify interval tmr r rest =
     (if snd r then
        (if tmr then
           (if sint (interval * Second) \<le> 0 then ([Fn (fst r)], Panic)
            else (Fn (fst r) # TmrReset (interval * Second) # fst rest, snd rest))
         else (Fn (fst r) # fst rest, snd rest))
      else rest)"

text \<open>
  The \<^verbatim>\<open>for { select { ... } }\<close>. The \<^verbatim>\<open>select\<close> has no case for \<^verbatim>\<open>neighUpd\<close>: whatever
  happens on that channel leaves the loop where it is. The timer's channel \<^verbatim>\<open>tmrCh\<close>
  delivers only when there is a ticker; without one it is a channel nobody sends on.
  The \<^verbatim>\<open>lastUpdate\<close> of the timer's case is a new variable of that case.
\<close>

fun loop ::
  "Duration \<Rightarrow> bool \<Rightarrow> Update \<Rightarrow> (event \<times> kernel) list \<Rightarrow> action list \<times> outcome" where
  "loop interval tmr lastUpdate [] = ([], Waiting)"
| "loop interval tmr lastUpdate ((CtxDone, k) # es) = ([], Return None)"
| "loop interval tmr lastUpdate ((AddrUpd None, k) # es) = ([], Return None)"
| "loop interval tmr lastUpdate ((AddrUpd (Some a), k) # es) =
     (let r = addrUpdate k (genUpdate (Some lastUpdate) k) a
      in notify interval tmr r (loop interval tmr (fst r) es))"
| "loop interval tmr lastUpdate ((LinkUpd None, k) # es) = ([], Return None)"
| "loop interval tmr lastUpdate ((LinkUpd (Some l), k) # es) =
     (let r = linkUpdate (genUpdate (Some lastUpdate) k) l
      in notify interval tmr r (loop interval tmr (fst r) es))"
| "loop interval tmr lastUpdate ((RouteUpd None, k) # es) = ([], Return None)"
| "loop interval tmr lastUpdate ((RouteUpd (Some r'), k) # es) =
     (let r = routeUpdate k (genUpdate (Some lastUpdate) k) r'
      in notify interval tmr r (loop interval tmr (fst r) es))"
| "loop interval tmr lastUpdate ((NeighUpd n, k) # es) = loop interval tmr lastUpdate es"
| "loop interval tmr lastUpdate ((TmrCh, k) # es) =
     (if tmr then
        (let rest = loop interval tmr lastUpdate es
         in (Fn ((genUpdate None k)\<lparr>Update.Type := ''interval''\<rparr>) # fst rest, snd rest))
      else loop interval tmr lastUpdate es)"

text \<open>
  \<^verbatim>\<open>func Monitor(ctx context.Context, interval int, fn func(*Update)) error\<close>: the
  result of the four subscriptions, the kernel \<open>k0\<close> read by the first snapshot, and
  the events. It gives the calls made, in order, and how the function ends. After
  \<^verbatim>\<open>fn(lastUpdate)\<close> of the first snapshot comes
  \<^verbatim>\<open>
  if interval > 0 {
      tmr = time.NewTicker(time.Duration(interval) * time.Second)
      ...
  }
  \<close>
  where \<^verbatim>\<open>NewTicker\<close> panics if the product is not positive.
\<close>

definition Monitor ::
  "Duration \<Rightarrow> subscriptions \<Rightarrow> kernel \<Rightarrow> (event \<times> kernel) list
   \<Rightarrow> action list \<times> outcome" where
  "Monitor interval subs k0 es =
     (case NeighSubscribeWithOptions subs of
        Some err \<Rightarrow> ([], Return (Some err))
      | None \<Rightarrow>
     (case AddrSubscribe subs of
        Some err \<Rightarrow> ([], Return (Some err))
      | None \<Rightarrow>
     (case RouteSubscribe subs of
        Some err \<Rightarrow> ([], Return (Some err))
      | None \<Rightarrow>
     (case LinkSubscribe subs of
        Some err \<Rightarrow> ([], Return (Some err))
      | None \<Rightarrow>
          (let lastUpdate = (genUpdate None k0)\<lparr>Update.Type := ''init''\<rparr> in
           if 0 < sint interval then
             (if sint (interval * Second) \<le> 0 then ([Fn lastUpdate], Panic)
              else (let rest = loop interval True lastUpdate es
                    in (Fn lastUpdate # fst rest, snd rest)))
           else (let rest = loop interval False lastUpdate es
                 in (Fn lastUpdate # fst rest, snd rest)))))))"

subsection \<open>The orders and predicates the properties are stated with\<close>

text \<open>Go's \<^verbatim>\<open><=\<close> on strings: byte by byte, a proper prefix first.\<close>

fun strLe :: "string \<Rightarrow> string \<Rightarrow> bool" where
  "strLe [] y = True"
| "strLe (c # cs) [] = False"
| "strLe (c # cs) (d # ds) = ((of_char c :: nat) < of_char d \<or> (c = d \<and> strLe cs ds))"

text \<open>What \<^verbatim>\<open>genUpdate\<close> keeps of an address and of a route.\<close>

definition keptAddress :: "Address \<Rightarrow> bool" where
  "keptAddress a =
     ((IsLinkLocalUnicast (IP (N a)) \<or> IsGlobalUnicast (IP (N a)))
      \<and> Address.Address a = IPString (IP (N a)))"

definition keptRoute :: "Route \<Rightarrow> bool" where
  "keptRoute r =
     (Table (route r) = 254
      \<and> (Scope (route r) = SCOPE_UNIVERSE \<or> Scope (route r) = SCOPE_LINK)
      \<and> (case Dst (route r) of None \<Rightarrow> True | Some d \<Rightarrow> \<not> IsLinkLocalUnicast (IP d))
      \<and> ((Destination r = ''default'') = (Dst (route r) = None)))"

text \<open>
  The routes that the loop of \<^verbatim>\<open>MarshalEnv\<close> looks at for one value \<open>p\<close> of
  \<^verbatim>\<open>route.Protocol\<close>: those with no destination.
\<close>

definition candidates :: "int \<Rightarrow> Route list \<Rightarrow> Route list" where
  "candidates p rs = filter (\<lambda>r. Dst (route r) = None \<and> Protocol (route r) = p) rs"

text \<open>
  \<open>firstLowest w cs\<close>: \<open>w\<close> is in \<open>cs\<close>, every route before it has a higher priority
  value and no route after it has a lower one.
\<close>

definition firstLowest :: "Route \<Rightarrow> Route list \<Rightarrow> bool" where
  "firstLowest w cs =
     (\<exists>pre post. cs = pre @ w # post
        \<and> (\<forall>r \<in> set pre. Priority (route w) < Priority (route r))
        \<and> (\<forall>r \<in> set post. Priority (route w) \<le> Priority (route r)))"

text \<open>The events at which the loop returns.\<close>

fun ending :: "event \<Rightarrow> bool" where
  "ending CtxDone = True"
| "ending (AddrUpd None) = True"
| "ending (LinkUpd None) = True"
| "ending (RouteUpd None) = True"
| "ending _ = False"

text \<open>
  The intervals for which \<^verbatim>\<open>Monitor\<close> asks for a ticker and \<^verbatim>\<open>time.NewTicker\<close> panics:
  positive, with a product \<^verbatim>\<open>time.Duration(interval) * time.Second\<close> that has wrapped
  around to a value that is not positive.
\<close>

definition tickerPanics :: "Duration \<Rightarrow> bool" where
  "tickerPanics interval = (0 < sint interval \<and> sint (interval * Second) \<le> 0)"

subsection \<open>A host for the examples\<close>

text \<open>
  A loopback link and an Ethernet link. \<^verbatim>\<open>lo\<close> has 127.0.0.1/8 and ::1/128; \<^verbatim>\<open>eth0\<close>
  has 192.0.2.10/24 with a lifetime, the link-local fe80::1/64 and the unique-local
  fd00::1/64.
\<close>

definition exLo :: LinkAttrs where
  "exLo = \<lparr>Index = 1, Name = ''lo'', LinkAttrs.Flags = 0x5\<rparr>"

definition exEth0 :: LinkAttrs where
  "exEth0 = \<lparr>Index = 2, Name = ''eth0'', LinkAttrs.Flags = 0x13\<rparr>"

definition mask4 :: "byte list" where "mask4 = [255, 255, 255, 0]"

definition mask6 :: "byte list" where
  "mask6 = [255, 255, 255, 255, 255, 255, 255, 255, 0, 0, 0, 0, 0, 0, 0, 0]"

definition ipGlobal4 :: IP where "ipGlobal4 = Some [192, 0, 2, 10]"

definition ipLinkLocal6 :: IP where
  "ipLinkLocal6 = Some [0xfe, 0x80, 0, 0, 0, 0, 0, 0, 0, 0, 0, 0, 0, 0, 0, 1]"

definition ipUniqueLocal6 :: IP where
  "ipUniqueLocal6 = Some [0xfd, 0, 0, 0, 0, 0, 0, 0, 0, 0, 0, 0, 0, 0, 0, 1]"

definition exAddrList :: "LinkAttrs \<Rightarrow> netlink_Addr list" where
  "exAddrList l =
     (if Index l = 1 then
        [\<lparr>IP = Some [127, 0, 0, 1], Mask = [255, 0, 0, 0], ValidLft = 0\<rparr>,
         \<lparr>IP = IPv6loopback, Mask = replicate 16 255, ValidLft = 0\<rparr>]
      else if Index l = 2 then
        [\<lparr>IP = ipGlobal4, Mask = mask4, ValidLft = 3600\<rparr>,
         \<lparr>IP = ipLinkLocal6, Mask = mask6, ValidLft = 0\<rparr>,
         \<lparr>IP = ipUniqueLocal6, Mask = mask6, ValidLft = 0\<rparr>]
      else [])"

text \<open>
  Two default routes through \<^verbatim>\<open>eth0\<close> whose routing protocol is \<^verbatim>\<open>static\<close>
  (\<^verbatim>\<open>RTPROT_STATIC\<close>, 4), as
  \<^verbatim>\<open>ip route add default via 192.0.2.1 proto static metric 100\<close> and
  \<^verbatim>\<open>ip -6 route add default via fe80::1 dev eth0 proto static metric 50\<close> make them:
  the first of the family \<^verbatim>\<open>AF_INET\<close>, the second of the family \<^verbatim>\<open>AF_INET6\<close>. Then
  the connected network of \<^verbatim>\<open>eth0\<close>, a row of the table \<^verbatim>\<open>local\<close> (255), and an IPv4
  default route as a DHCP client installs it (\<^verbatim>\<open>RTPROT_DHCP\<close>, 16).
\<close>

definition exRoute4 :: netlink_Route where
  "exRoute4 = \<lparr>netlink_Route.LinkIndex = 2, ILinkIndex = 0, Scope = SCOPE_UNIVERSE, Dst = None,
     netlink_Route.Src = None, Gw = Some [192, 0, 2, 1], Protocol = RTPROT_STATIC,
     Priority = 100, Family = AF_INET, Table = 254\<rparr>"

definition exRoute6 :: netlink_Route where
  "exRoute6 = \<lparr>netlink_Route.LinkIndex = 2, ILinkIndex = 0, Scope = SCOPE_UNIVERSE, Dst = None,
     netlink_Route.Src = None, Gw = ipLinkLocal6, Protocol = RTPROT_STATIC,
     Priority = 50, Family = AF_INET6, Table = 254\<rparr>"

definition exRouteNet :: netlink_Route where
  "exRouteNet = \<lparr>netlink_Route.LinkIndex = 2, ILinkIndex = 0, Scope = SCOPE_LINK,
     Dst = Some \<lparr>IP = Some [192, 0, 2, 0], Mask = mask4\<rparr>,
     netlink_Route.Src = ipGlobal4, Gw = None, Protocol = 2,
     Priority = 0, Family = AF_INET, Table = 254\<rparr>"

definition exRouteLocal :: netlink_Route where
  "exRouteLocal = \<lparr>netlink_Route.LinkIndex = 2, ILinkIndex = 0, Scope = 254,
     Dst = Some \<lparr>IP = ipGlobal4, Mask = [255, 255, 255, 255]\<rparr>,
     netlink_Route.Src = ipGlobal4, Gw = None, Protocol = 2,
     Priority = 0, Family = AF_INET, Table = 255\<rparr>"

definition exRouteDhcp :: netlink_Route where
  "exRouteDhcp = \<lparr>netlink_Route.LinkIndex = 2, ILinkIndex = 0, Scope = SCOPE_UNIVERSE, Dst = None,
     netlink_Route.Src = None, Gw = Some [192, 0, 2, 1], Protocol = 16,
     Priority = 100, Family = AF_INET, Table = 254\<rparr>"

definition exLinkByIndex :: "int \<Rightarrow> LinkAttrs option" where
  "exLinkByIndex i = (if i = 1 then Some exLo else if i = 2 then Some exEth0 else None)"

definition exKernel :: kernel where
  "exKernel = \<lparr>LinkList = [Some exLo, Some exEth0], AddrList = exAddrList,
     RouteList = [exRoute4, exRoute6, exRouteNet, exRouteLocal],
     LinkByIndex = exLinkByIndex\<rparr>"

text \<open>The same host with the two default routes only and no address on \<^verbatim>\<open>eth0\<close>.\<close>

definition exKernelRoutes :: kernel where
  "exKernelRoutes = \<lparr>LinkList = [Some exEth0], AddrList = (\<lambda>l. []),
     RouteList = [exRoute4, exRoute6], LinkByIndex = exLinkByIndex\<rparr>"

definition exKernelDhcp :: kernel where
  "exKernelDhcp = \<lparr>LinkList = [Some exEth0], AddrList = (\<lambda>l. []),
     RouteList = [exRouteDhcp], LinkByIndex = exLinkByIndex\<rparr>"

text \<open>What \<^verbatim>\<open>genUpdate\<close> makes of \<^verbatim>\<open>eth0\<close> and of the routes.\<close>

definition exInterface :: Interface where
  "exInterface = \<lparr>Up = True, link = exEth0,
     Addr = [\<lparr>N = \<lparr>IP = ipGlobal4, Mask = mask4, ValidLft = 3600\<rparr>,
              Address.Address = ''192.0.2.10'', CIDR = 24\<rparr>,
             \<lparr>N = \<lparr>IP = ipLinkLocal6, Mask = mask6, ValidLft = 0\<rparr>,
              Address.Address = ''fe80::1'', CIDR = 64\<rparr>,
             \<lparr>N = \<lparr>IP = ipUniqueLocal6, Mask = mask6, ValidLft = 0\<rparr>,
              Address.Address = ''fd00::1'', CIDR = 64\<rparr>]\<rparr>"

definition exDefault4 :: Route where
  "exDefault4 = \<lparr>Destination = ''default'', Route.Gateway = ''192.0.2.1'', Route.Link = ''eth0'',
     Route.Src = [], route = exRoute4\<rparr>"

definition exDefault6 :: Route where
  "exDefault6 = \<lparr>Destination = ''default'', Route.Gateway = ''fe80::1'', Route.Link = ''eth0'',
     Route.Src = [], route = exRoute6\<rparr>"

definition exNet :: Route where
  "exNet = \<lparr>Destination = ''192.0.2.0/24'', Route.Gateway = [], Route.Link = ''eth0'',
     Route.Src = ''192.0.2.10'', route = exRouteNet\<rparr>"

definition exDefaultDhcp :: Route where
  "exDefaultDhcp = \<lparr>Destination = ''default'', Route.Gateway = ''192.0.2.1'',
     Route.Link = ''eth0'', Route.Src = [], route = exRouteDhcp\<rparr>"

text \<open>A parser that knows the three literals of \<^verbatim>\<open>eth0\<close>, in their 16-byte form.\<close>

definition exParseIP :: "string \<Rightarrow> IP" where
  "exParseIP s =
     (if s = ''192.0.2.10'' then IPv4 192 0 2 10
      else if s = ''fe80::1'' then ipLinkLocal6
      else if s = ''fd00::1'' then ipUniqueLocal6
      else None)"

definition addrError :: subscriptions where
  "addrError = \<lparr>NeighSubscribeWithOptions = None,
     AddrSubscribe = Some ''operation not permitted'', RouteSubscribe = None,
     LinkSubscribe = None\<rparr>"

definition noError :: subscriptions where
  "noError = \<lparr>NeighSubscribeWithOptions = None, AddrSubscribe = None, RouteSubscribe = None,
     LinkSubscribe = None\<rparr>"

definition exAddrUpdate :: AddrUpdate where
  "exAddrUpdate = \<lparr>LinkAddress = \<lparr>IP = ipGlobal4, Mask = mask4\<rparr>, AddrUpdate.LinkIndex = 2,
     NewAddr = True\<rparr>"

section \<open>Properties\<close>

subsection \<open>Facts about the library functions\<close>

lemma ipbytes_simps: "ipbytes None = []" "ipbytes (Some b) = b"
  by (simp_all add: ipbytes_def)

lemmas ip_defs = To4_def To16_def Equal_def IsUnspecified_def IsLoopback_def IsPrivate_def
  IsMulticast_def IsLinkLocalUnicast_def IsGlobalUnicast_def IPv4bcast_def IPv4zero_def
  IPv6unspecified_def IPv6loopback_def IPv4_def v4InV6Prefix_def isZeros_def IPv4len_def
  IPv6len_def ipbytes_simps Let_def

text \<open>A link-local unicast address is none of loopback, multicast, unspecified.\<close>

lemma LinkLocal_not_Loopback: "IsLinkLocalUnicast ip \<Longrightarrow> \<not> IsLoopback ip"
  by (auto simp: IsLinkLocalUnicast_def IsLoopback_def Equal_def Let_def IPv6loopback_def
      IPv6len_def IPv4len_def ipbytes_simps split: option.splits if_splits)

lemma LinkLocal_not_Multicast: "IsLinkLocalUnicast ip \<Longrightarrow> \<not> IsMulticast ip"
  by (auto simp: IsLinkLocalUnicast_def IsMulticast_def split: option.splits)

lemma LinkLocal_not_Unspecified: "IsLinkLocalUnicast ip \<Longrightarrow> \<not> IsUnspecified ip"
  apply (auto simp: IsLinkLocalUnicast_def IsUnspecified_def Equal_def Let_def
      IPv6unspecified_def IPv4zero_def IPv4_def v4InV6Prefix_def IPv6len_def IPv4len_def
      ipbytes_simps split: option.splits if_splits)
  apply (auto simp: To4_def Let_def IPv6len_def IPv4len_def ipbytes_simps isZeros_def
      split: if_splits)
  done

lemma Private6_not_LinkLocal:
  "To4 ip = None \<Longrightarrow> IsPrivate ip \<Longrightarrow> \<not> IsLinkLocalUnicast ip"
  by (auto simp: IsPrivate_def IsLinkLocalUnicast_def)

lemma To4_None_To16: "To4 ip = None \<Longrightarrow> length (ipbytes ip) = IPv6len \<Longrightarrow> To16 ip \<noteq> None"
  by (cases ip) (simp_all add: To16_def Let_def IPv4len_def IPv6len_def ipbytes_def)

text \<open>A printed network has a slash or is \<^verbatim>\<open><nil>\<close>: it is never the word \<^verbatim>\<open>default\<close>.\<close>

lemma slash_not_default: "x @ CHR ''/'' # y \<noteq> ''default''"
proof
  assume "x @ CHR ''/'' # y = ''default''"
  then have "CHR ''/'' \<in> set ''default''"
    by (metis in_set_conv_decomp)
  then show False by simp
qed

lemma IPNetString_not_default: "IPNetString d \<noteq> ''default''"
  by (simp add: IPNetString_def Let_def slash_not_default split: option.splits prod.splits)

text \<open>The order of \<^typ>\<open>string\<close> is Go's order of strings.\<close>

lemma strLe_iff: "strLe x y = (x \<le> y)"
  by (induction x y rule: strLe.induct) (simp_all add: less_char_def)

text \<open>Unfolding the printing functions on numerals.\<close>

lemma uitoa_numeral:
  "uitoa (numeral k) =
     (if (numeral k :: nat) < 10 then [hexDigit ! numeral k]
      else uitoa (numeral k div 10) @ [hexDigit ! (numeral k mod 10)])"
  by (rule uitoa.simps)

lemma uitoa_0: "uitoa 0 = ''0''"
  by (subst uitoa.simps) (simp add: hexDigit_def)

lemma uitoa_1: "uitoa (Suc 0) = ''1''"
  by (subst uitoa.simps) (simp add: hexDigit_def)

lemma leadingOnes_numeral:
  "leadingOnes (numeral k) n =
     (if (numeral k :: byte) AND 0x80 \<noteq> 0 then leadingOnes (push_bit 1 (numeral k)) (n + 1)
      else (n, numeral k))"
  by (rule leadingOnes.simps)

lemma leadingOnes_0: "leadingOnes 0 n = (n, 0)"
  by (subst leadingOnes.simps) simp

lemmas print_defs = IPString_def string4_def string6_def appendHex_def hexString_def itoa_def
  uitoa_numeral uitoa_0 uitoa_1 hexDigit_def Size_def simpleMaskLength_def leadingOnes_numeral
  leadingOnes_0 MaskString_def IPNetString_def networkNumberAndMask_def

subsection \<open>The snapshot of the example host\<close>

lemma Interfaces_genUpdate:
  "Interfaces (genUpdate l k) = snd (genLinks k (LinkList k) (Map.empty, Map.empty))"
  by (simp add: genUpdate_def Let_def)

lemma Routes_genUpdate:
  "Routes (genUpdate l k)
   = genRoutes (fst (genLinks k (LinkList k) (Map.empty, Map.empty))) (RouteList k)"
  by (simp add: genUpdate_def Let_def)

lemma genUpdate_fields:
  "Update.Type (genUpdate l k) = []" "Update.Change (genUpdate l k) = []"
  "Update.Link (genUpdate l k) = []" "Update.Address (genUpdate l k) = None"
  "Update.Gateway (genUpdate l k) = []" "Source (genUpdate l k) = []"
  by (simp_all add: genUpdate_def Let_def)

lemma genAddrs_exLo: "genAddrs (exAddrList exLo) = []"
  by (simp add: exAddrList_def exLo_def ip_defs)

lemma genAddrs_exEth0: "genAddrs (exAddrList exEth0) = Addr exInterface"
  by (simp add: exAddrList_def exEth0_def exInterface_def)
     (simp add: ipGlobal4_def ipLinkLocal6_def ipUniqueLocal6_def mask4_def mask6_def
        print_defs ip_defs)

lemma genLinks_exKernel:
  "genLinks exKernel (LinkList exKernel) (Map.empty, Map.empty)
   = ([1 \<mapsto> ''lo'', 2 \<mapsto> ''eth0''],
      [''lo'' \<mapsto> \<lparr>Up = True, link = exLo, Addr = []\<rparr>, ''eth0'' \<mapsto> exInterface])"
  by (simp add: exKernel_def genAddrs_exLo genAddrs_exEth0)
     (simp add: exLo_def exEth0_def exInterface_def IFF_UP_def)

lemma Interfaces_exKernel:
  "Interfaces (genUpdate l exKernel)
   = [''lo'' \<mapsto> \<lparr>Up = True, link = exLo, Addr = []\<rparr>, ''eth0'' \<mapsto> exInterface]"
  by (simp add: Interfaces_genUpdate genLinks_exKernel)

lemma Routes_exKernel: "Routes (genUpdate l exKernel) = [exDefault4, exDefault6, exNet]"
  by (simp add: Routes_genUpdate genLinks_exKernel)
     (simp add: exKernel_def exDefault4_def exDefault6_def exNet_def exRoute4_def exRoute6_def
        exRouteNet_def exRouteLocal_def SCOPE_UNIVERSE_def SCOPE_LINK_def
        ipGlobal4_def ipLinkLocal6_def mask4_def print_defs ip_defs)

lemma Routes_exKernelRoutes: "Routes (genUpdate l exKernelRoutes) = [exDefault4, exDefault6]"
  by (simp add: Routes_genUpdate exKernelRoutes_def exEth0_def IFF_UP_def)
     (simp add: exDefault4_def exDefault6_def exRoute4_def exRoute6_def SCOPE_UNIVERSE_def
        ipLinkLocal6_def print_defs ip_defs)

lemma Routes_exKernelDhcp: "Routes (genUpdate l exKernelDhcp) = [exDefaultDhcp]"
  by (simp add: Routes_genUpdate exKernelDhcp_def exEth0_def IFF_UP_def)
     (simp add: exDefaultDhcp_def exRouteDhcp_def SCOPE_UNIVERSE_def print_defs ip_defs)

lemma Interfaces_exKernelRoutes:
  "Interfaces (genUpdate l exKernelRoutes)
   = [''eth0'' \<mapsto> \<lparr>Up = True, link = exEth0, Addr = []\<rparr>]"
  by (simp add: Interfaces_genUpdate exKernelRoutes_def exEth0_def IFF_UP_def)

lemma Interfaces_exKernelDhcp:
  "Interfaces (genUpdate l exKernelDhcp)
   = [''eth0'' \<mapsto> \<lparr>Up = True, link = exEth0, Addr = []\<rparr>]"
  by (simp add: Interfaces_genUpdate exKernelDhcp_def exEth0_def IFF_UP_def)

subsection \<open>The default route of \<^verbatim>\<open>MarshalEnv\<close>\<close>

text \<open>
  What the loop over \<^verbatim>\<open>u.Routes\<close> selects. Among the routes with no destination whose
  \<^verbatim>\<open>route.Protocol\<close> is 4, \<^verbatim>\<open>defRouteIPv4\<close> is the first one of the lowest priority
  value, and nil when there is none; \<^verbatim>\<open>defRouteIPv6\<close> is the same for the value 6.
\<close>

lemma defRoutes_snoc: "defRoutes (rs @ [r]) = defRouteStep (defRoutes rs) r"
  by (simp add: defRoutes_def)

lemma candidates_snoc:
  "candidates p (rs @ [r]) =
     candidates p rs @ (if Dst (route r) = None \<and> Protocol (route r) = p then [r] else [])"
  by (simp add: candidates_def)

lemma firstLowest_new:
  "\<forall>x \<in> set cs. Priority (route r) < Priority (route x) \<Longrightarrow> firstLowest r (cs @ [r])"
  unfolding firstLowest_def by (rule exI[of _ cs], rule exI[of _ "[]"]) simp

lemma firstLowest_keep:
  assumes "firstLowest w cs" and "Priority (route w) \<le> Priority (route r)"
  shows "firstLowest w (cs @ [r])"
proof -
  from assms(1) obtain pre post where
    "cs = pre @ w # post" "\<forall>x \<in> set pre. Priority (route w) < Priority (route x)"
    "\<forall>x \<in> set post. Priority (route w) \<le> Priority (route x)"
    unfolding firstLowest_def by blast
  with assms(2) show ?thesis
    unfolding firstLowest_def
    by (intro exI[of _ pre] exI[of _ "post @ [r]"]) simp
qed

lemma firstLowest_lower:
  assumes "firstLowest w cs" and "Priority (route r) < Priority (route w)"
  shows "\<forall>x \<in> set cs. Priority (route r) < Priority (route x)"
proof -
  from assms(1) obtain pre post where
    "cs = pre @ w # post" "\<forall>x \<in> set pre. Priority (route w) < Priority (route x)"
    "\<forall>x \<in> set post. Priority (route w) \<le> Priority (route x)"
    unfolding firstLowest_def by blast
  with assms(2) show ?thesis by fastforce
qed

lemma defRoutes_Protocol_4:
  "(case fst (defRoutes rs) of
      None \<Rightarrow> candidates 4 rs = []
    | Some w \<Rightarrow> firstLowest w (candidates 4 rs))"
proof (induction rs rule: rev_induct)
  case Nil
  then show ?case by (simp add: defRoutes_def candidates_def)
next
  case (snoc r rs)
  show ?case
  proof (cases "Dst (route r) = None \<and> Protocol (route r) = 4")
    case False
    then have "fst (defRoutes (rs @ [r])) = fst (defRoutes rs)"
      by (auto simp: defRoutes_snoc defRouteStep_def)
    moreover from False have "candidates 4 (rs @ [r]) = candidates 4 rs"
      by (auto simp: candidates_def)
    ultimately show ?thesis using snoc by (simp split: option.splits)
  next
    case True
    show ?thesis
    proof (cases "fst (defRoutes rs)")
      case None
      with True have "fst (defRoutes (rs @ [r])) = Some r"
        by (simp add: defRoutes_snoc defRouteStep_def)
      moreover from None snoc have "candidates 4 rs = []" by simp
      ultimately show ?thesis using True firstLowest_new[of "[]" r]
        by (simp add: candidates_snoc)
    next
      case (Some w)
      with snoc have w: "firstLowest w (candidates 4 rs)" by simp
      show ?thesis
      proof (cases "Priority (route r) < Priority (route w)")
        case lower: True
        with True Some have "fst (defRoutes (rs @ [r])) = Some r"
          by (simp add: defRoutes_snoc defRouteStep_def)
        moreover from w lower have "firstLowest r (candidates 4 rs @ [r])"
          by (intro firstLowest_new firstLowest_lower)
        ultimately show ?thesis using True by (simp add: candidates_snoc)
      next
        case False
        with True Some have "fst (defRoutes (rs @ [r])) = Some w"
          by (simp add: defRoutes_snoc defRouteStep_def)
        moreover from w False have "firstLowest w (candidates 4 rs @ [r])"
          by (intro firstLowest_keep) simp_all
        ultimately show ?thesis using True by (simp add: candidates_snoc)
      qed
    qed
  qed
qed

lemma defRoutes_Protocol_6:
  "(case snd (defRoutes rs) of
      None \<Rightarrow> candidates 6 rs = []
    | Some w \<Rightarrow> firstLowest w (candidates 6 rs))"
proof (induction rs rule: rev_induct)
  case Nil
  then show ?case by (simp add: defRoutes_def candidates_def)
next
  case (snoc r rs)
  show ?case
  proof (cases "Dst (route r) = None \<and> Protocol (route r) = 6")
    case False
    then have "snd (defRoutes (rs @ [r])) = snd (defRoutes rs)"
      by (auto simp: defRoutes_snoc defRouteStep_def)
    moreover from False have "candidates 6 (rs @ [r]) = candidates 6 rs"
      by (auto simp: candidates_def)
    ultimately show ?thesis using snoc by (simp split: option.splits)
  next
    case True
    show ?thesis
    proof (cases "snd (defRoutes rs)")
      case None
      with True have "snd (defRoutes (rs @ [r])) = Some r"
        by (simp add: defRoutes_snoc defRouteStep_def)
      moreover from None snoc have "candidates 6 rs = []" by simp
      ultimately show ?thesis using True firstLowest_new[of "[]" r]
        by (simp add: candidates_snoc)
    next
      case (Some w)
      with snoc have w: "firstLowest w (candidates 6 rs)" by simp
      show ?thesis
      proof (cases "Priority (route r) < Priority (route w)")
        case lower: True
        with True Some have "snd (defRoutes (rs @ [r])) = Some r"
          by (simp add: defRoutes_snoc defRouteStep_def)
        moreover from w lower have "firstLowest r (candidates 6 rs @ [r])"
          by (intro firstLowest_new firstLowest_lower)
        ultimately show ?thesis using True by (simp add: candidates_snoc)
      next
        case False
        with True Some have "snd (defRoutes (rs @ [r])) = Some w"
          by (simp add: defRoutes_snoc defRouteStep_def)
        moreover from w False have "firstLowest w (candidates 6 rs @ [r])"
          by (intro firstLowest_keep) simp_all
        ultimately show ?thesis using True by (simp add: candidates_snoc)
      qed
    qed
  qed
qed

lemma defRoutes_exKernelRoutes: "defRoutes [exDefault4, exDefault6] = (Some exDefault6, None)"
  by (simp add: defRoutes_def defRouteStep_def exDefault4_def exDefault6_def exRoute4_def
      exRoute6_def RTPROT_STATIC_def)

lemma defRoutes_exKernelDhcp: "defRoutes [exDefaultDhcp] = (None, None)"
  by (simp add: defRoutes_def defRouteStep_def exDefaultDhcp_def exRouteDhcp_def)

lemma envUnsorted_exKernelRoutes:
  "envUnsorted P [''eth0''] ((genUpdate None exKernelRoutes)\<lparr>Update.Type := ''init''\<rparr>)
   = [''IPMON_TYPE=init'', ''IPMON_UP_eth0=1'', ''IPMON_IPV4_IF=eth0'',
      ''IPMON_IPV4_GW=fe80::1'']"
  by (simp add: envUnsorted_def genUpdate_fields Routes_exKernelRoutes Interfaces_exKernelRoutes
      defRoutes_exKernelRoutes interfacesEnv_def ifaceEnv_def defRouteIPv4Env_def
      defRouteIPv6Env_def)
     (simp add: exDefault6_def exRoute6_def ipLinkLocal6_def print_defs ip_defs)

lemma envUnsorted_exKernelDhcp:
  "envUnsorted P [''eth0''] ((genUpdate None exKernelDhcp)\<lparr>Update.Type := ''init''\<rparr>)
   = [''IPMON_TYPE=init'', ''IPMON_UP_eth0=1'']"
  by (simp add: envUnsorted_def genUpdate_fields Routes_exKernelDhcp Interfaces_exKernelDhcp
      defRoutes_exKernelDhcp interfacesEnv_def ifaceEnv_def defRouteIPv4Env_def
      defRouteIPv6Env_def)

text \<open>
  Claim C1. The marshaller is to select a default route for IPv4 and one for IPv6, each
  within its address family, and \<^verbatim>\<open>IPMON_IPV4_GW\<close> is to be the gateway of the IPv4
  winner. The code tells the families apart by \<^verbatim>\<open>r.route.Protocol\<close>, 4 or 6. In
  netlink that field is the routing protocol of the row (\<^verbatim>\<open>RTPROT_STATIC\<close> is 4); the
  family is \<^verbatim>\<open>route.Family\<close>. The lemmas \<open>defRoutes_Protocol_4\<close> and
  \<open>defRoutes_Protocol_6\<close> say what is selected: lowest priority value, first on a tie,
  among the rows of one routing protocol.

  On a host whose IPv4 and IPv6 default routes are both static, the IPv6 route, of the
  lower metric, is taken for the IPv4 default: \<^verbatim>\<open>IPMON_IPV4_GW\<close> is the IPv6 gateway
  \<^verbatim>\<open>fe80::1\<close> and not the gateway 192.0.2.1 of the only IPv4 route, and there is no
  \<^verbatim>\<open>IPMON_IPV6_GW\<close>. On a host whose only default route is an IPv4 one that a DHCP client
  installed (routing protocol 16), no \<^verbatim>\<open>IPMON_IPV4_GW\<close> is emitted at all.
\<close>

theorem MarshalEnv_default_route_by_Protocol:
  "Family (route exDefault4) = AF_INET \<and> Family (route exDefault6) = AF_INET6
   \<and> Gw (route exDefault6) = ipLinkLocal6 \<and> To4 ipLinkLocal6 = None
   \<and> Routes (genUpdate None exKernelRoutes) = [exDefault4, exDefault6]
   \<and> MarshalEnv exParseIP [''eth0''] ((genUpdate None exKernelRoutes)\<lparr>Update.Type := ''init''\<rparr>)
       = [''IPMON_IPV4_GW=fe80::1'', ''IPMON_IPV4_IF=eth0'', ''IPMON_TYPE=init'',
          ''IPMON_UP_eth0=1'']
   \<and> Family (route exDefaultDhcp) = AF_INET
   \<and> Routes (genUpdate None exKernelDhcp) = [exDefaultDhcp]
   \<and> MarshalEnv exParseIP [''eth0''] ((genUpdate None exKernelDhcp)\<lparr>Update.Type := ''init''\<rparr>)
       = [''IPMON_TYPE=init'', ''IPMON_UP_eth0=1'']"
proof -
  have "To4 ipLinkLocal6 = None"
    by (simp add: ipLinkLocal6_def ip_defs)
  moreover have "sort [''IPMON_TYPE=init'', ''IPMON_UP_eth0=1'', ''IPMON_IPV4_IF=eth0'',
      ''IPMON_IPV4_GW=fe80::1'']
    = [''IPMON_IPV4_GW=fe80::1'', ''IPMON_IPV4_IF=eth0'', ''IPMON_TYPE=init'',
       ''IPMON_UP_eth0=1'']"
    by simp
  moreover have "sort [''IPMON_TYPE=init'', ''IPMON_UP_eth0=1'']
    = [''IPMON_TYPE=init'', ''IPMON_UP_eth0=1'']"
    by simp
  ultimately show ?thesis
    by (simp add: MarshalEnv_def envUnsorted_exKernelRoutes envUnsorted_exKernelDhcp
        Routes_exKernelRoutes Routes_exKernelDhcp exDefault4_def exDefault6_def
        exDefaultDhcp_def exRoute4_def exRoute6_def exRouteDhcp_def)
qed

subsection \<open>The handlers\<close>

lemma and_IFF_UP_bit0: "(x AND IFF_UP = 0) = (\<not> bit (x :: 'a::len word) 0)"
  by (simp add: IFF_UP_def and_one_eq bit_0 flip: even_iff_mod_2_eq_zero)

text \<open>
  Claim C2. \<^verbatim>\<open>linkUpdate\<close> returns true exactly when the up/down bit (bit 0,
  \<^verbatim>\<open>IFF_UP\<close>) is among the changed bits of the record. A record whose only changed bit
  is \<^verbatim>\<open>IFF_PROMISC\<close> is not notable; a record whose changed bits include \<^verbatim>\<open>IFF_UP\<close>
  is notable whatever the other bits \<open>c\<close> are.
\<close>

theorem linkUpdate_notable_iff_up_changed:
  "snd (linkUpdate u a) = bit (LinkUpdate.Change a) 0
   \<and> snd (linkUpdate u (a\<lparr>LinkUpdate.Change := IFF_PROMISC\<rparr>)) = False
   \<and> snd (linkUpdate u (a\<lparr>LinkUpdate.Change := c OR IFF_UP\<rparr>)) = True"
  by (simp add: linkUpdate_def Let_def and_IFF_UP_bit0 bit_or_iff)
     (simp add: IFF_PROMISC_def IFF_UP_def bit_0)

text \<open>
  Claim C3. \<^verbatim>\<open>routeUpdate\<close> returns true exactly when the scope of the record is
  universe or link and its table is 254.
\<close>

theorem routeUpdate_notable_iff_scope_and_main_table:
  "snd (routeUpdate k u a)
   = ((Scope a = SCOPE_UNIVERSE \<or> Scope a = SCOPE_LINK) \<and> Table a = 254)"
  by (auto simp add: routeUpdate_def Let_def)

subsection \<open>The snapshot\<close>

lemma genAddrs_kept: "a \<in> set (genAddrs addrs) \<Longrightarrow> keptAddress a"
  by (induction addrs) (auto simp: keptAddress_def split: if_splits)

lemma genLinks_kept:
  assumes "\<And>n i. snd st n = Some i \<Longrightarrow> (\<forall>a \<in> set (Addr i). keptAddress a)"
    and "snd (genLinks k links st) n = Some i"
  shows "\<forall>a \<in> set (Addr i). keptAddress a"
  using assms
proof (induction links arbitrary: st)
  case Nil
  then show ?case by simp
next
  case (Cons l links)
  show ?case
  proof (cases l)
    case None
    with Cons.prems(2) have "snd (genLinks k links st) n = Some i" by simp
    with Cons.IH[of st] Cons.prems(1) show ?thesis by blast
  next
    case (Some attrs)
    let ?st = "((fst st)(Index attrs \<mapsto> Name attrs),
             (snd st)(Name attrs \<mapsto>
                \<lparr>Up = (LinkAttrs.Flags attrs AND IFF_UP = IFF_UP),
                 link = attrs,
                 Addr = genAddrs (AddrList k attrs)\<rparr>))"
    have inv: "\<And>n i. snd ?st n = Some i \<Longrightarrow> (\<forall>a \<in> set (Addr i). keptAddress a)"
      using Cons.prems(1) by (auto simp: genAddrs_kept split: if_splits)
    from Cons.prems(2) Some have "snd (genLinks k links ?st) n = Some i" by simp
    with Cons.IH[of ?st] inv show ?thesis by blast
  qed
qed

text \<open>
  Claim C4. Every address that \<^verbatim>\<open>genUpdate\<close> stores in an interface of
  \<^verbatim>\<open>Interfaces\<close> is link-local unicast or global unicast, and is none of loopback,
  multicast, unspecified; the literal stored with it is that address printed.
\<close>

theorem genUpdate_addresses_unicast:
  assumes "Interfaces (genUpdate last' k) n = Some i" and "a \<in> set (Addr i)"
  shows "(IsLinkLocalUnicast (IP (N a)) \<or> IsGlobalUnicast (IP (N a)))
    \<and> \<not> IsLoopback (IP (N a)) \<and> \<not> IsMulticast (IP (N a)) \<and> \<not> IsUnspecified (IP (N a))
    \<and> Address.Address a = IPString (IP (N a))"
proof -
  from assms(1) have "snd (genLinks k (LinkList k) (Map.empty, Map.empty)) n = Some i"
    by (simp add: genUpdate_def Let_def)
  then have "\<forall>a \<in> set (Addr i). keptAddress a"
    by (rule genLinks_kept[rotated]) simp
  with assms(2) have kept: "keptAddress a" by blast
  then show ?thesis
    using LinkLocal_not_Loopback LinkLocal_not_Multicast LinkLocal_not_Unspecified
    by (auto simp: keptAddress_def IsGlobalUnicast_def)
qed

theorem genUpdate_addresses_unicast_witness:
  "Interfaces (genUpdate None exKernel) ''eth0'' = Some exInterface
   \<and> Addr exInterface ! 1 \<in> set (Addr exInterface)
   \<and> IP (N (Addr exInterface ! 1)) = ipLinkLocal6
   \<and> IsLinkLocalUnicast ipLinkLocal6
   \<and> \<not> IsLoopback ipLinkLocal6 \<and> \<not> IsMulticast ipLinkLocal6 \<and> \<not> IsUnspecified ipLinkLocal6
   \<and> Address.Address (Addr exInterface ! 1) = ''fe80::1''"
proof -
  have i: "Interfaces (genUpdate None exKernel) ''eth0'' = Some exInterface"
    by (simp add: Interfaces_exKernel)
  have a: "Addr exInterface ! 1 \<in> set (Addr exInterface)"
    by (simp add: exInterface_def)
  have n: "IP (N (Addr exInterface ! 1)) = ipLinkLocal6"
    "Address.Address (Addr exInterface ! 1) = ''fe80::1''"
    by (simp_all add: exInterface_def)
  have l: "IsLinkLocalUnicast ipLinkLocal6"
    by (simp add: ipLinkLocal6_def ip_defs)
  from genUpdate_addresses_unicast[OF i a] i a n l show ?thesis by simp
qed

lemma genRoutes_kept: "r \<in> set (genRoutes lnkIdx routes) \<Longrightarrow> keptRoute r"
proof (induction routes)
  case Nil
  then show ?case by simp
next
  case (Cons x routes)
  show ?case
  proof (cases "r \<in> set (genRoutes lnkIdx routes)")
    case True
    then show ?thesis by (rule Cons.IH)
  next
    case False
    with Cons.prems have keep: "\<not> (Scope x \<noteq> SCOPE_UNIVERSE \<and> Scope x \<noteq> SCOPE_LINK)"
      "\<not> (case Dst x of None \<Rightarrow> False | Some d \<Rightarrow> IsLinkLocalUnicast (IP d))"
      "Table x = 254"
      by (auto split: if_splits)
    with Cons.prems False have r: "route r = x"
      "Destination r = (case Dst x of None \<Rightarrow> ''default'' | Some d \<Rightarrow> IPNetString d)"
      by (auto split: if_splits)
    with keep show ?thesis
      by (auto simp: keptRoute_def IPNetString_not_default split: option.splits)
  qed
qed

text \<open>
  Claim C5. Every route that \<^verbatim>\<open>genUpdate\<close> retains has table 254 and scope universe
  or link, its destination, if it has one, is not a link-local address, and its
  \<^verbatim>\<open>Destination\<close> is the word \<^verbatim>\<open>default\<close> exactly when the kernel's row has no
  destination.
\<close>

theorem genUpdate_routes_retained:
  "\<forall>r \<in> set (Routes (genUpdate last' k)).
     Table (route r) = 254
     \<and> (Scope (route r) = SCOPE_UNIVERSE \<or> Scope (route r) = SCOPE_LINK)
     \<and> (\<forall>d. Dst (route r) = Some d \<longrightarrow> \<not> IsLinkLocalUnicast (IP d))
     \<and> ((Destination r = ''default'') = (Dst (route r) = None))"
proof
  fix r assume "r \<in> set (Routes (genUpdate last' k))"
  then have "keptRoute r" by (simp add: genUpdate_def Let_def genRoutes_kept)
  then show "Table (route r) = 254
     \<and> (Scope (route r) = SCOPE_UNIVERSE \<or> Scope (route r) = SCOPE_LINK)
     \<and> (\<forall>d. Dst (route r) = Some d \<longrightarrow> \<not> IsLinkLocalUnicast (IP d))
     \<and> ((Destination r = ''default'') = (Dst (route r) = None))"
    by (auto simp: keptRoute_def)
qed

theorem genUpdate_routes_retained_witness:
  "exNet \<in> set (Routes (genUpdate None exKernel))
   \<and> Table (route exNet) = 254 \<and> Scope (route exNet) = SCOPE_LINK
   \<and> Dst (route exNet) = Some \<lparr>IP = Some [192, 0, 2, 0], Mask = mask4\<rparr>
   \<and> \<not> IsLinkLocalUnicast (Some [192, 0, 2, 0])
   \<and> Destination exNet \<noteq> ''default''
   \<and> exDefault4 \<in> set (Routes (genUpdate None exKernel))
   \<and> Dst (route exDefault4) = None \<and> Destination exDefault4 = ''default''"
proof -
  have r: "exNet \<in> set (Routes (genUpdate None exKernel))"
    "exDefault4 \<in> set (Routes (genUpdate None exKernel))"
    by (simp_all add: Routes_exKernel)
  have d: "Dst (route exNet) = Some \<lparr>IP = Some [192, 0, 2, 0], Mask = mask4\<rparr>"
    "Scope (route exNet) = SCOPE_LINK" "Dst (route exDefault4) = None"
    by (simp_all add: exNet_def exRouteNet_def exDefault4_def exRoute4_def)
  from genUpdate_routes_retained[of None exKernel, THEN bspec, OF r(1)]
    genUpdate_routes_retained[of None exKernel, THEN bspec, OF r(2)] r d
  show ?thesis by simp
qed

text \<open>
  Claim C10. \<^verbatim>\<open>genUpdate\<close> does not read its argument: whatever the previous update,
  none included, the same kernel gives the same snapshot.
\<close>

theorem genUpdate_ignores_last:
  "genUpdate l1 k = genUpdate l2 k"
  by (simp add: genUpdate_def)

subsection \<open>The marshaller\<close>

text \<open>
  Claim C6. An interface address that is unique-local IPv6 (no IPv4 form, and
  \<^verbatim>\<open>IsPrivate\<close>) makes the marshaller append nothing, so none of
  \<^verbatim>\<open>IPMON_IPV6_<iface>\<close>, \<^verbatim>\<open>IPMON_IPV6_MASK_<iface>\<close>, \<^verbatim>\<open>IPMON_IPV6_TTL_<iface>\<close>; an IPv6
  address that is link-local makes it append \<^verbatim>\<open>IPMON_LL_IPV6_<iface>\<close> and nothing else.
\<close>

theorem addrEnv_unique_local_IPv6:
  "(To4 (ParseIP (Address.Address a)) = None \<and> IsPrivate (ParseIP (Address.Address a))
      \<longrightarrow> addrEnv ParseIP n a = [])
   \<and> (To4 (ParseIP (Address.Address a)) = None
        \<and> IsLinkLocalUnicast (ParseIP (Address.Address a))
      \<longrightarrow> addrEnv ParseIP n a = [''IPMON_LL_IPV6_'' @ n @ ''='' @ Address.Address a])"
proof (intro conjI impI)
  assume h: "To4 (ParseIP (Address.Address a)) = None \<and> IsPrivate (ParseIP (Address.Address a))"
  then have "\<not> IsLinkLocalUnicast (ParseIP (Address.Address a))"
    by (simp add: Private6_not_LinkLocal)
  with h show "addrEnv ParseIP n a = []"
    by (simp add: addrEnv_def Let_def)
next
  assume h: "To4 (ParseIP (Address.Address a)) = None
    \<and> IsLinkLocalUnicast (ParseIP (Address.Address a))"
  then have "length (ipbytes (ParseIP (Address.Address a))) = IPv6len"
    by (auto simp: IsLinkLocalUnicast_def)
  with h have "To16 (ParseIP (Address.Address a)) \<noteq> None"
    by (simp add: To4_None_To16)
  moreover from h have "\<not> IsGlobalUnicast (ParseIP (Address.Address a))"
    by (simp add: IsGlobalUnicast_def)
  ultimately show "addrEnv ParseIP n a = [''IPMON_LL_IPV6_'' @ n @ ''='' @ Address.Address a]"
    using h by (simp add: addrEnv_def Let_def)
qed

theorem addrEnv_unique_local_IPv6_witness:
  "To4 (exParseIP ''fd00::1'') = None \<and> IsPrivate (exParseIP ''fd00::1'')
   \<and> addrEnv exParseIP ''eth0'' (Addr exInterface ! 2) = []
   \<and> To4 (exParseIP ''fe80::1'') = None \<and> IsLinkLocalUnicast (exParseIP ''fe80::1'')
   \<and> addrEnv exParseIP ''eth0'' (Addr exInterface ! 1) = [''IPMON_LL_IPV6_eth0=fe80::1'']"
proof -
  have a: "Address.Address (Addr exInterface ! 2) = ''fd00::1''"
    "Address.Address (Addr exInterface ! 1) = ''fe80::1''"
    by (simp_all add: exInterface_def)
  have p: "To4 (exParseIP ''fd00::1'') = None \<and> IsPrivate (exParseIP ''fd00::1'')"
    by (simp add: exParseIP_def ipUniqueLocal6_def ip_defs)
  have l: "To4 (exParseIP ''fe80::1'') = None \<and> IsLinkLocalUnicast (exParseIP ''fe80::1'')"
    by (simp add: exParseIP_def ipLinkLocal6_def ip_defs)
  from addrEnv_unique_local_IPv6[of exParseIP "Addr exInterface ! 2" "''eth0''"]
    addrEnv_unique_local_IPv6[of exParseIP "Addr exInterface ! 1" "''eth0''"] a p l
  show ?thesis by simp
qed

lemma mset_concat_map:
  "mset (concat (map f ks)) = sum_mset (image_mset (\<lambda>k. mset (f k)) (mset ks))"
  by (induction ks) simp_all

lemma mset_interfacesEnv:
  "mset ks1 = mset ks2 \<Longrightarrow> mset (interfacesEnv P ks1 m) = mset (interfacesEnv P ks2 m)"
  by (simp only: interfacesEnv_def mset_concat_map)

lemma sort_cong_mset: "mset xs = mset ys \<Longrightarrow> sort xs = sort (ys :: 'a :: linorder list)"
  by (rule properties_for_sort) simp_all

text \<open>
  Claim C7. The marshaller gives the same list, in the same order, whatever the order
  in which Go ranges over \<^verbatim>\<open>u.Interfaces\<close>: two calls on the same \<^verbatim>\<open>Update\<close> differ in
  nothing else, so they return the same list.
\<close>

theorem MarshalEnv_range_order_independent:
  assumes "rangeOrder (Interfaces u) ks1" and "rangeOrder (Interfaces u) ks2"
  shows "MarshalEnv ParseIP ks1 u = MarshalEnv ParseIP ks2 u"
proof -
  from assms have "distinct ks1" "distinct ks2" "set ks1 = set ks2"
    by (simp_all add: rangeOrder_def)
  then have "mset ks1 = mset ks2"
    by (simp add: set_eq_iff_mset_eq_distinct)
  then have "mset (interfacesEnv ParseIP ks1 (Interfaces u))
      = mset (interfacesEnv ParseIP ks2 (Interfaces u))"
    by (rule mset_interfacesEnv)
  then have "mset (envUnsorted ParseIP ks1 u) = mset (envUnsorted ParseIP ks2 u)"
    by (simp only: envUnsorted_def mset_append)
  then show ?thesis
    unfolding MarshalEnv_def by (rule sort_cong_mset)
qed

theorem MarshalEnv_range_order_independent_witness:
  "rangeOrder (Interfaces (genUpdate None exKernel)) [''lo'', ''eth0'']
   \<and> rangeOrder (Interfaces (genUpdate None exKernel)) [''eth0'', ''lo'']
   \<and> MarshalEnv exParseIP [''lo'', ''eth0''] (genUpdate None exKernel)
     = MarshalEnv exParseIP [''eth0'', ''lo''] (genUpdate None exKernel)"
proof -
  have a: "rangeOrder (Interfaces (genUpdate None exKernel)) [''lo'', ''eth0'']"
    by (auto simp: rangeOrder_def Interfaces_exKernel)
  have b: "rangeOrder (Interfaces (genUpdate None exKernel)) [''eth0'', ''lo'']"
    by (auto simp: rangeOrder_def Interfaces_exKernel)
  from MarshalEnv_range_order_independent[OF a b] a b show ?thesis by simp
qed

text \<open>
  Claim C8. The list that the marshaller returns is sorted in Go's order of strings.
\<close>

theorem MarshalEnv_sorted:
  "sorted_wrt strLe (MarshalEnv ParseIP ks u)"
proof -
  have "sorted (MarshalEnv ParseIP ks u)" by (simp add: MarshalEnv_def)
  then show ?thesis by (simp add: strLe_iff[abs_def])
qed

subsection \<open>The event loop\<close>

lemma snd_notify:
  "(tmr \<longrightarrow> 0 < sint (interval * Second)) \<Longrightarrow> snd (notify interval tmr r rest) = snd rest"
  by (auto simp: notify_def)

lemma notify_no_error:
  "snd rest \<noteq> Return (Some e) \<Longrightarrow> snd (notify interval tmr r rest) \<noteq> Return (Some e)"
  by (simp add: notify_def)

lemma loop_no_error: "snd (loop interval tmr lastUpdate es) \<noteq> Return (Some e)"
  by (induction interval tmr lastUpdate es rule: loop.induct)
     (simp_all add: Let_def notify_no_error)

text \<open>
  With no ticker, or with a ticker of a positive period, the loop returns nil at the
  first event that ends it and waits when there is none.
\<close>

lemma loop_outcome:
  "(tmr \<longrightarrow> 0 < sint (interval * Second)) \<Longrightarrow>
   snd (loop interval tmr lastUpdate es)
   = (if \<exists>x \<in> set es. ending (fst x) then Return None else Waiting)"
  by (induction interval tmr lastUpdate es rule: loop.induct)
     (simp_all add: Let_def snd_notify)

text \<open>Whatever the neighbour channel delivers, a record or its closure, changes nothing.\<close>

lemma loop_neighbour:
  "loop interval tmr lastUpdate (es1 @ (NeighUpd n, k) # es2)
   = loop interval tmr lastUpdate (es1 @ es2)"
  by (induction interval tmr lastUpdate es1 rule: loop.induct)
     (simp_all add: Let_def)

text \<open>
  An interval whose duration wraps around to a value that is not positive makes
  \<^verbatim>\<open>time.NewTicker\<close> panic, after the first snapshot has gone to the handler and before
  the loop: 9223372037 seconds is such an interval.
\<close>

lemma Monitor_NewTicker_panics:
  assumes "NeighSubscribeWithOptions subs = None" and "AddrSubscribe subs = None"
    and "RouteSubscribe subs = None" and "LinkSubscribe subs = None"
    and "tickerPanics interval"
  shows "Monitor interval subs k0 es
    = ([Fn ((genUpdate None k0)\<lparr>Update.Type := ''init''\<rparr>)], Panic)"
  using assms by (simp add: Monitor_def tickerPanics_def Let_def)

lemma tickerPanics_9223372037: "tickerPanics 9223372037"
  by (simp add: tickerPanics_def Second_def)

text \<open>
  Claim C9, as the code has it. \<^verbatim>\<open>Monitor\<close> returns an error only if one of the four
  subscriptions returned that error, and then it has called nothing; if a subscription
  fails, it returns an error and has called nothing. With the four subscriptions made
  and an interval for which \<^verbatim>\<open>time.NewTicker\<close> does not panic, it returns nil as soon as
  the loop meets the cancellation of the context or the closure of the address, link or
  route channel, and it goes on waiting as long as it meets none of these. The neighbour
  channel is not among the cases of the \<^verbatim>\<open>select\<close>: a record on it or its closure,
  wherever it comes among the events, changes neither the calls made nor how
  \<^verbatim>\<open>Monitor\<close> ends.
\<close>

theorem Monitor_returns:
  "(snd (Monitor interval subs k0 es) = Return (Some e) \<longrightarrow>
      fst (Monitor interval subs k0 es) = []
      \<and> Some e \<in> {NeighSubscribeWithOptions subs, AddrSubscribe subs, RouteSubscribe subs,
                    LinkSubscribe subs})
   \<and> (NeighSubscribeWithOptions subs \<noteq> None \<or> AddrSubscribe subs \<noteq> None
        \<or> RouteSubscribe subs \<noteq> None \<or> LinkSubscribe subs \<noteq> None \<longrightarrow>
      fst (Monitor interval subs k0 es) = []
      \<and> (\<exists>err. snd (Monitor interval subs k0 es) = Return (Some err)))
   \<and> (NeighSubscribeWithOptions subs = None \<and> AddrSubscribe subs = None
        \<and> RouteSubscribe subs = None \<and> LinkSubscribe subs = None
        \<and> \<not> tickerPanics interval \<longrightarrow>
      snd (Monitor interval subs k0 es)
      = (if \<exists>x \<in> set es. ending (fst x) then Return None else Waiting))
   \<and> Monitor interval subs k0 (es1 @ (NeighUpd n, k) # es2)
      = Monitor interval subs k0 (es1 @ es2)"
proof -
  have a: "fst (Monitor interval subs k0 es) = []
      \<and> Some e \<in> {NeighSubscribeWithOptions subs, AddrSubscribe subs, RouteSubscribe subs,
                    LinkSubscribe subs}"
    if "snd (Monitor interval subs k0 es) = Return (Some e)"
    using that loop_no_error
    by (auto simp: Monitor_def Let_def split: option.splits if_splits)
  have b: "fst (Monitor interval subs k0 es) = []
      \<and> (\<exists>err. snd (Monitor interval subs k0 es) = Return (Some err))"
    if "NeighSubscribeWithOptions subs \<noteq> None \<or> AddrSubscribe subs \<noteq> None
        \<or> RouteSubscribe subs \<noteq> None \<or> LinkSubscribe subs \<noteq> None"
    using that by (auto simp: Monitor_def split: option.splits)
  have c: "snd (Monitor interval subs k0 es)
      = (if \<exists>x \<in> set es. ending (fst x) then Return None else Waiting)"
    if "NeighSubscribeWithOptions subs = None \<and> AddrSubscribe subs = None
        \<and> RouteSubscribe subs = None \<and> LinkSubscribe subs = None
        \<and> \<not> tickerPanics interval"
  proof (cases "0 < sint interval")
    case True
    with that have "0 < sint (interval * Second)"
      by (simp add: tickerPanics_def)
    with that True show ?thesis
      by (simp add: Monitor_def Let_def loop_outcome)
  next
    case False
    with that show ?thesis
      by (simp add: Monitor_def Let_def loop_outcome)
  qed
  have d: "Monitor interval subs k0 (es1 @ (NeighUpd n, k) # es2)
      = Monitor interval subs k0 (es1 @ es2)"
    unfolding Monitor_def loop_neighbour by (rule refl)
  from a b c d show ?thesis by blast
qed

theorem Monitor_returns_witness:
  "AddrSubscribe addrError \<noteq> None
   \<and> Monitor 5 addrError exKernel [(CtxDone, exKernel)]
       = ([], Return (Some ''operation not permitted''))
   \<and> NeighSubscribeWithOptions noError = None \<and> AddrSubscribe noError = None
   \<and> RouteSubscribe noError = None \<and> LinkSubscribe noError = None
   \<and> \<not> tickerPanics 5
   \<and> ending (fst (AddrUpd None, exKernel))
   \<and> snd (Monitor 5 noError exKernel
            [(AddrUpd (Some exAddrUpdate), exKernel), (AddrUpd None, exKernel)]) = Return None
   \<and> \<not> ending (fst (NeighUpd None, exKernel))
   \<and> snd (Monitor 5 noError exKernel [(NeighUpd None, exKernel)]) = Waiting
   \<and> Monitor 5 noError exKernel [(NeighUpd None, exKernel), (CtxDone, exKernel)]
     = Monitor 5 noError exKernel [(CtxDone, exKernel)]"
proof -
  have e: "AddrSubscribe addrError \<noteq> None"
    by (simp add: addrError_def)
  have n: "NeighSubscribeWithOptions noError = None \<and> AddrSubscribe noError = None
    \<and> RouteSubscribe noError = None \<and> LinkSubscribe noError = None"
    by (simp add: noError_def)
  have t: "\<not> tickerPanics 5"
    by (simp add: tickerPanics_def Second_def)
  have s: "Some ''operation not permitted''
    \<in> {NeighSubscribeWithOptions addrError, AddrSubscribe addrError, RouteSubscribe addrError,
        LinkSubscribe addrError}
    \<Longrightarrow> (\<exists>err. snd (Monitor 5 addrError exKernel [(CtxDone, exKernel)]) = Return (Some err))
    \<Longrightarrow> snd (Monitor 5 addrError exKernel [(CtxDone, exKernel)])
         = Return (Some ''operation not permitted'')"
    using Monitor_returns[of 5 addrError exKernel "[(CtxDone, exKernel)]"]
    by (auto simp: addrError_def)
  from Monitor_returns[of 5 addrError exKernel "[(CtxDone, exKernel)]"]
    Monitor_returns[of 5 noError exKernel
      "[(AddrUpd (Some exAddrUpdate), exKernel), (AddrUpd None, exKernel)]"]
    Monitor_returns[of 5 noError exKernel "[(NeighUpd None, exKernel)]" _ "[]" None exKernel
      "[(CtxDone, exKernel)]"]
    e n t s
  show ?thesis by (simp add: prod_eq_iff addrError_def)
qed

text \<open>
  Claim C9, as it is worded, has the closure of any of the channels end the loop. The
  closure of the neighbour channel does not: the loop goes on waiting.
\<close>

theorem Monitor_neighbour_closure_counterexample:
  "snd (Monitor 5 noError exKernel [(NeighUpd None, exKernel)]) = Waiting
   \<and> snd (Monitor 5 noError exKernel [(NeighUpd None, exKernel)]) \<noteq> Return None"
  by (simp add: Monitor_def noError_def Let_def Second_def)

end
